theory Spec2Isabelle
  imports Complex_Main "HOL-Library.Sublist"
begin

section \<open>JavaScript values and strings\<close>

text \<open>
  The test scripts inspect values produced by \<^verbatim>\<open>response.json()\<close> and
  \<^verbatim>\<open>JSON.parse\<close>. A parsed value is one of the JSON shapes; an object is kept as the
  list of its properties (each key once, as a parsed object has them). Numbers are the
  finite values a parsed number can take.
\<close>

datatype json =
    JNull
  | JBool bool
  | JNum real
  | JStr string
  | JArr "json list"
  | JObj "(string \<times> json) list"

text \<open>\<^verbatim>\<open>s.includes(sub)\<close>: \<open>sub\<close> occurs in \<open>s\<close> as a contiguous run of characters.\<close>

fun str_includes :: "string \<Rightarrow> string \<Rightarrow> bool" where
  "str_includes [] sub = (sub = [])"
| "str_includes (c # cs) sub = (prefix sub (c # cs) \<or> str_includes cs sub)"

section \<open>The response listener\<close>

text \<open>
  A completed network exchange as the \<^verbatim>\<open>page.on('response', ...)\<close> handler sees it:
  \<open>body\<close> is the result of \<^verbatim>\<open>await response.json()\<close>, \<open>None\<close> when that call
  throws because the body is not JSON. Exchanges are listed in the order in which
  their handlers resume after that \<^verbatim>\<open>await\<close>.
\<close>

record exchange =
  url :: string
  req_method :: string
  body :: "json option"
  status :: int

text \<open>An element of the \<^verbatim>\<open>responses\<close> array: \<^verbatim>\<open>{ url, json, status }\<close>.\<close>

record captured =
  c_url :: string
  c_json :: json
  c_status :: int

datatype log_line =
    LogCaptured string int
  | LogFailedParse string
  | LogHealthReceived json
  | LogHealthParseFailed

record capture_state =
  responses :: "captured list"
  healthResponse :: "json option"
  capture_log :: "log_line list"

definition init_capture :: capture_state where
  "init_capture = \<lparr>responses = [], healthResponse = None, capture_log = []\<rparr>"

text \<open>
  \<^verbatim>\<open>url.includes('/api/ds/query') && response.request().method() === 'POST'\<close>,
  the filter of senario.spec.ts, editor\_test.spec.ts and datasource\_test.spec.ts.
\<close>

definition query_filter :: "exchange \<Rightarrow> bool" where
  "query_filter e \<longleftrightarrow> str_includes (url e) ''/api/ds/query'' \<and> req_method e = ''POST''"

text \<open>The filter of query-editor.spec.ts, which also asks for the plugin's \<^verbatim>\<open>ds_type\<close>.\<close>

definition warp10_query_filter :: "exchange \<Rightarrow> bool" where
  "warp10_query_filter e \<longleftrightarrow>
     str_includes (url e) ''/api/ds/query'' \<and> req_method e = ''POST'' \<and>
     str_includes (url e) ''ds_type=clevercloud-warp10-datasource''"

definition health_filter :: "exchange \<Rightarrow> bool" where
  "health_filter e \<longleftrightarrow> str_includes (url e) ''/api/datasources'' \<and> str_includes (url e) ''/health''"

text \<open>
  The first \<^verbatim>\<open>if\<close> block of the handler: on a matching exchange, \<^verbatim>\<open>try\<close> to read
  the JSON body and push the entry; the \<^verbatim>\<open>catch\<close> only logs.
\<close>

definition capture_query :: "(exchange \<Rightarrow> bool) \<Rightarrow> capture_state \<Rightarrow> exchange \<Rightarrow> capture_state" where
  "capture_query flt s e =
     (if flt e then
        (case body e of
           Some j \<Rightarrow> s\<lparr>responses := responses s @ [\<lparr>c_url = url e, c_json = j, c_status = status e\<rparr>],
                       capture_log := capture_log s @ [LogCaptured (url e) (status e)]\<rparr>
         | None \<Rightarrow> s\<lparr>capture_log := capture_log s @ [LogFailedParse (url e)]\<rparr>)
      else s)"

text \<open>The second \<^verbatim>\<open>if\<close> block: the health response overwrites \<^verbatim>\<open>healthResponse\<close>.\<close>

definition capture_health :: "capture_state \<Rightarrow> exchange \<Rightarrow> capture_state" where
  "capture_health s e =
     (if health_filter e then
        (case body e of
           Some j \<Rightarrow> s\<lparr>healthResponse := Some j,
                       capture_log := capture_log s @ [LogHealthReceived j]\<rparr>
         | None \<Rightarrow> s\<lparr>capture_log := capture_log s @ [LogHealthParseFailed]\<rparr>)
      else s)"

text \<open>The whole handler of senario.spec.ts, and its run over the exchanges of a test.\<close>

definition on_response :: "capture_state \<Rightarrow> exchange \<Rightarrow> capture_state" where
  "on_response s e = capture_health (capture_query query_filter s e) e"

definition capture_all :: "exchange list \<Rightarrow> capture_state" where
  "capture_all es = foldl on_response init_capture es"

text \<open>The handler of query-editor.spec.ts has the first block only, with the narrower filter.\<close>

definition capture_all_warp10 :: "exchange list \<Rightarrow> capture_state" where
  "capture_all_warp10 es = foldl (capture_query warp10_query_filter) init_capture es"

text \<open>What one exchange contributes to the \<^verbatim>\<open>responses\<close> array under a filter.\<close>

definition entries_of :: "(exchange \<Rightarrow> bool) \<Rightarrow> exchange \<Rightarrow> captured list" where
  "entries_of flt e =
     (if flt e then
        (case body e of
           Some j \<Rightarrow> [\<lparr>c_url = url e, c_json = j, c_status = status e\<rparr>]
         | None \<Rightarrow> [])
      else [])"

text \<open>\<^verbatim>\<open>drain\<close>: the consumer reads the whole \<^verbatim>\<open>responses\<close> array.\<close>

definition drain :: "capture_state \<Rightarrow> captured list" where
  "drain s = responses s"

section \<open>Reading parsed values\<close>

text \<open>
  What an expression of the scripts can evaluate to: \<^verbatim>\<open>undefined\<close>, a parsed JSON
  value, or the method \<^verbatim>\<open>Array.prototype.values\<close>, which the property name
  \<^verbatim>\<open>values\<close> reaches on an array.
\<close>

datatype jsval = Undefined | Val json | ArrayValuesMethod

text \<open>The property names the scripts read.\<close>

datatype fname =
    F_results | F_A | F_status | F_frames | F_schema | F_name | F_data | F_values
  | F_error | F_queries | F_expr | F_version | F_message

fun key_of :: "fname \<Rightarrow> string" where
  "key_of F_results = ''results''"
| "key_of F_A = ''A''"
| "key_of F_status = ''status''"
| "key_of F_frames = ''frames''"
| "key_of F_schema = ''schema''"
| "key_of F_name = ''name''"
| "key_of F_data = ''data''"
| "key_of F_values = ''values''"
| "key_of F_error = ''error''"
| "key_of F_queries = ''queries''"
| "key_of F_expr = ''expr''"
| "key_of F_version = ''version''"
| "key_of F_message = ''message''"

fun own_property :: "(string \<times> json) list \<Rightarrow> string \<Rightarrow> jsval" where
  "own_property [] k = Undefined"
| "own_property ((k', v) # kvs) k = (if k' = k then Val v else own_property kvs k)"

datatype js_error =
  TypeError | SyntaxError | AssertionFailed | TimeoutError | NotFoundError | RequestFailed

text \<open>
  \<^verbatim>\<open>v.name\<close> for one of the names above: a \<^verbatim>\<open>TypeError\<close> on \<^verbatim>\<open>null\<close> and
  \<^verbatim>\<open>undefined\<close>; an object answers with its own property; an array has none of
  these names but \<^verbatim>\<open>values\<close>, a method of its prototype; strings, numbers and
  booleans have none; a function has a \<^verbatim>\<open>name\<close>.
\<close>

fun get_field :: "fname \<Rightarrow> jsval \<Rightarrow> js_error + jsval" where
  "get_field f Undefined = Inl TypeError"
| "get_field f (Val JNull) = Inl TypeError"
| "get_field f (Val (JObj kvs)) = Inr (own_property kvs (key_of f))"
| "get_field f (Val (JArr xs)) = Inr (if f = F_values then ArrayValuesMethod else Undefined)"
| "get_field f (Val (JStr s)) = Inr Undefined"
| "get_field f (Val (JNum n)) = Inr Undefined"
| "get_field f (Val (JBool b)) = Inr Undefined"
| "get_field f ArrayValuesMethod = Inr (if f = F_name then Val (JStr ''values'') else Undefined)"

text \<open>\<^verbatim>\<open>v?.name\<close>: \<^verbatim>\<open>undefined\<close> on \<^verbatim>\<open>null\<close> and \<^verbatim>\<open>undefined\<close>, else as above.\<close>

definition opt_field :: "fname \<Rightarrow> jsval \<Rightarrow> jsval" where
  "opt_field f v = (case get_field f v of Inl e \<Rightarrow> Undefined | Inr w \<Rightarrow> w)"

text \<open>\<^verbatim>\<open>v?.[0]\<close>: the first element of an array, the first character of a string,
  the property \<^verbatim>\<open>"0"\<close> of an object.\<close>

fun opt_index0 :: "jsval \<Rightarrow> jsval" where
  "opt_index0 (Val (JArr [])) = Undefined"
| "opt_index0 (Val (JArr (x # xs))) = Val x"
| "opt_index0 (Val (JStr [])) = Undefined"
| "opt_index0 (Val (JStr (c # cs))) = Val (JStr [c])"
| "opt_index0 (Val (JObj kvs)) = own_property kvs ''0''"
| "opt_index0 v = Undefined"

text \<open>JavaScript truthiness, as \<^verbatim>\<open>!resultA\<close> and \<^verbatim>\<open>!!postData\<close> use it.\<close>

fun truthy :: "jsval \<Rightarrow> bool" where
  "truthy Undefined = False"
| "truthy (Val JNull) = False"
| "truthy (Val (JBool b)) = b"
| "truthy (Val (JNum n)) = (n \<noteq> 0)"
| "truthy (Val (JStr s)) = (s \<noteq> [])"
| "truthy (Val (JArr xs)) = True"
| "truthy (Val (JObj kvs)) = True"
| "truthy ArrayValuesMethod = True"

fun typeof_is_string :: "jsval \<Rightarrow> bool" where
  "typeof_is_string (Val (JStr s)) = True"
| "typeof_is_string v = False"

fun isArray :: "jsval \<Rightarrow> bool" where
  "isArray (Val (JArr xs)) = True"
| "isArray v = False"

section \<open>The response-inspection loop\<close>

text \<open>
  The loop of query-editor.spec.ts and editor\_test.spec.ts. \<^verbatim>\<open>r.json?.results?.A\<close>:
\<close>

definition result_A :: "captured \<Rightarrow> jsval" where
  "result_A r = opt_field F_A (opt_field F_results (Val (c_json r)))"

text \<open>\<^verbatim>\<open>resultA.frames?.[0]\<close>, \<^verbatim>\<open>...?.schema?.name\<close> and \<^verbatim>\<open>...?.data?.values?.[0]\<close>.
  \<^verbatim>\<open>resultA\<close> is truthy where they are read, so \<^verbatim>\<open>resultA.frames\<close> does not throw.\<close>

definition first_frame :: "jsval \<Rightarrow> jsval" where
  "first_frame resultA = opt_index0 (opt_field F_frames resultA)"

definition schema_name :: "jsval \<Rightarrow> jsval" where
  "schema_name resultA = opt_field F_name (opt_field F_schema (first_frame resultA))"

definition first_values :: "jsval \<Rightarrow> jsval" where
  "first_values resultA = opt_index0 (opt_field F_values (opt_field F_data (first_frame resultA)))"

text \<open>The four \<^verbatim>\<open>expect\<close> calls of the \<^verbatim>\<open>try\<close> block, in the order of the source.
  \<^verbatim>\<open>resultA.status\<close> is read on a truthy \<^verbatim>\<open>resultA\<close> and does not throw.\<close>

datatype rule = RuleHttpStatus | RuleResultStatus | RuleSchemaName | RuleDataArray

definition all_rules :: "rule list" where
  "all_rules = [RuleHttpStatus, RuleResultStatus, RuleSchemaName, RuleDataArray]"

fun rule_holds :: "rule \<Rightarrow> captured \<Rightarrow> jsval \<Rightarrow> bool" where
  "rule_holds RuleHttpStatus r resultA = (c_status r = 200)"
| "rule_holds RuleResultStatus r resultA = (opt_field F_status resultA = Val (JNum 200))"
| "rule_holds RuleSchemaName r resultA = typeof_is_string (schema_name resultA)"
| "rule_holds RuleDataArray r resultA = isArray (first_values resultA)"

text \<open>
  What the loop does, in order: the \<^verbatim>\<open>expect\<close> calls it makes (with their outcome)
  and the lines it logs.
\<close>

datatype check_event =
    Expected rule bool
  | LogChecking nat nat
  | LogSkipping nat
  | LogStatusOk
  | LogResultStatusOk
  | LogSchemaName jsval
  | LogDataIsArray
  | LogFullJson nat json
  | LogErrorIn nat rule

text \<open>
  The \<^verbatim>\<open>try\<close> block with its \<^verbatim>\<open>catch\<close>: a failing \<^verbatim>\<open>expect\<close> throws, the rest
  of the block is skipped and the \<^verbatim>\<open>catch\<close> logs one line. \<open>n\<close> is \<^verbatim>\<open>index + 1\<close>.
\<close>

definition check_rules :: "nat \<Rightarrow> captured \<Rightarrow> jsval \<Rightarrow> check_event list" where
  "check_rules n r resultA =
     (if \<not> rule_holds RuleHttpStatus r resultA
      then [Expected RuleHttpStatus False, LogErrorIn n RuleHttpStatus]
      else Expected RuleHttpStatus True # LogStatusOk #
       (if \<not> rule_holds RuleResultStatus r resultA
        then [Expected RuleResultStatus False, LogErrorIn n RuleResultStatus]
        else Expected RuleResultStatus True # LogResultStatusOk #
             LogSchemaName (schema_name resultA) #
         (if \<not> rule_holds RuleSchemaName r resultA
          then [Expected RuleSchemaName False, LogErrorIn n RuleSchemaName]
          else Expected RuleSchemaName True #
           (if \<not> rule_holds RuleDataArray r resultA
            then [Expected RuleDataArray False, LogErrorIn n RuleDataArray]
            else [Expected RuleDataArray True, LogDataIsArray, LogFullJson n (c_json r)]))))"

text \<open>One iteration of the \<^verbatim>\<open>for\<close> loop, for \<^verbatim>\<open>responses[index]\<close>.\<close>

definition check_response :: "nat \<Rightarrow> nat \<Rightarrow> captured \<Rightarrow> check_event list" where
  "check_response index len r =
     LogChecking (index + 1) len #
       (if \<not> truthy (result_A r) then [LogSkipping (index + 1)]
        else check_rules (index + 1) r (result_A r))"

fun loop_from :: "nat \<Rightarrow> nat \<Rightarrow> captured list \<Rightarrow> check_event list" where
  "loop_from index len [] = []"
| "loop_from index len (r # rs) = check_response index len r @ loop_from (index + 1) len rs"

definition validation_loop :: "captured list \<Rightarrow> check_event list" where
  "validation_loop rs = loop_from 0 (length rs) rs"

text \<open>
  \<^verbatim>\<open>expect(responses.length).toBeGreaterThan(0)\<close> and then the loop: the step fails
  only on an empty array; what the loop finds is logged.
\<close>

definition verify_responses :: "captured list \<Rightarrow> js_error + check_event list" where
  "verify_responses rs = (if length rs > 0 then Inr (validation_loop rs) else Inl AssertionFailed)"

text \<open>The rules an iteration evaluated, and the failures it logged.\<close>

fun evaluated_rules :: "check_event list \<Rightarrow> rule list" where
  "evaluated_rules [] = []"
| "evaluated_rules (Expected q b # es) = q # evaluated_rules es"
| "evaluated_rules (e # es) = evaluated_rules es"

fun logged_failures :: "check_event list \<Rightarrow> rule list" where
  "logged_failures [] = []"
| "logged_failures (LogErrorIn n q # es) = q # logged_failures es"
| "logged_failures (e # es) = logged_failures es"

text \<open>
  The rules the loop reaches for one response, and the failure it logs for it: none for a
  skipped response, else the rules up to and including the first failing one, and that
  first failure.
\<close>

definition rules_reached :: "captured \<Rightarrow> rule list" where
  "rules_reached r =
     (if truthy (result_A r)
      then takeWhile (\<lambda>q. rule_holds q r (result_A r)) all_rules @
           take 1 (dropWhile (\<lambda>q. rule_holds q r (result_A r)) all_rules)
      else [])"

definition failure_logged :: "captured \<Rightarrow> rule list" where
  "failure_logged r =
     (if truthy (result_A r)
      then take 1 (filter (\<lambda>q. \<not> rule_holds q r (result_A r)) all_rules)
      else [])"

text \<open>The positions announced by the "Checking response" lines of a log.\<close>

fun checking_lines :: "check_event list \<Rightarrow> nat list" where
  "checking_lines [] = []"
| "checking_lines (LogChecking n len # es) = n # checking_lines es"
| "checking_lines (e # es) = checking_lines es"

section \<open>Version detection and version-dependent choices\<close>

text \<open>
  A JavaScript string is a sequence of UTF-16 code units. The version string is kept as
  the list of its code units, so that every string \<^verbatim>\<open>parseInt\<close> can be given is a
  value of the model; a \<open>string\<close> of the other definitions is read as code units below
  256.
\<close>

definition code_units :: "string \<Rightarrow> nat list" where
  "code_units s = map of_char s"

text \<open>
  \<^verbatim>\<open>parseInt(s, 10)\<close>: leading white space and line terminators are skipped (tab,
  line feed, vertical tab, form feed, carriage return, space, U+00A0, U+1680, U+2000 to
  U+200A, U+2028, U+2029, U+202F, U+205F, U+3000, U+FEFF), a sign is read, then the
  longest run of decimal digits; \<^verbatim>\<open>NaN\<close>, here \<open>None\<close>, when there is no digit.
\<close>

definition is_js_space :: "nat \<Rightarrow> bool" where
  "is_js_space u \<longleftrightarrow>
     u \<in> {0x09, 0x0A, 0x0B, 0x0C, 0x0D, 0x20, 0xA0, 0x1680, 0x2028, 0x2029, 0x202F,
          0x205F, 0x3000, 0xFEFF} \<or>
     (0x2000 \<le> u \<and> u \<le> 0x200A)"

definition is_digit :: "nat \<Rightarrow> bool" where
  "is_digit u \<longleftrightarrow> 48 \<le> u \<and> u \<le> 57"

definition digit_value :: "nat \<Rightarrow> int" where
  "digit_value u = int u - 48"

definition digits_value :: "nat list \<Rightarrow> int" where
  "digits_value ds = foldl (\<lambda>acc u. 10 * acc + digit_value u) 0 ds"

definition parseInt10 :: "nat list \<Rightarrow> int option" where
  "parseInt10 s =
     (let t = dropWhile is_js_space s;
          neg = (case t of u # r \<Rightarrow> u = 0x2D | [] \<Rightarrow> False);
          r = (case t of u # r \<Rightarrow> if u = 0x2D \<or> u = 0x2B then r else t | [] \<Rightarrow> t);
          ds = takeWhile is_digit r
      in if ds = [] then None
         else Some (if neg then - digits_value ds else digits_value ds))"

text \<open>\<^verbatim>\<open>version.split('.')[0]\<close>: the code units before the first dot.\<close>

definition split_dot_first :: "nat list \<Rightarrow> nat list" where
  "split_dot_first v = takeWhile (\<lambda>u. u \<noteq> 0x2E) v"

definition major_of :: "nat list \<Rightarrow> int option" where
  "major_of v = parseInt10 (split_dot_first v)"

text \<open>\<^verbatim>\<open>major < 10\<close>: a comparison with \<^verbatim>\<open>NaN\<close> is false.\<close>

definition major_lt_10 :: "nat list \<Rightarrow> bool" where
  "major_lt_10 v = (case major_of v of None \<Rightarrow> False | Some m \<Rightarrow> m < 10)"

text \<open>\<^verbatim>\<open>major >= 10\<close>, the guard of editor\_test.spec.ts.\<close>

definition major_ge_10 :: "nat list \<Rightarrow> bool" where
  "major_ge_10 v = (case major_of v of None \<Rightarrow> False | Some m \<Rightarrow> m \<ge> 10)"

datatype locator =
    ByRole string string
  | ByTestId string
  | ByCss string
  | ByCssHasText string string
  | FirstOf locator

text \<open>The version-dependent constants of the first scenario of senario.spec.ts.\<close>

definition basePath :: "nat list \<Rightarrow> string" where
  "basePath v = (if major_lt_10 v then ''/connections/your-connections/datasources/new''
                 else ''/connections/datasources/new'')"

definition saveButtonName :: "nat list \<Rightarrow> string" where
  "saveButtonName v = (if major_lt_10 v then ''Data source settings page Save and Test button''
                       else ''Save & test'')"

definition myDsPath :: "nat list \<Rightarrow> string" where
  "myDsPath v = (if major_lt_10 v then ''/connections/your-connections/datasources''
                 else ''/connections/datasources'')"

definition deleteButton :: "nat list \<Rightarrow> locator" where
  "deleteButton v = (if major_lt_10 v then ByRole ''button'' ''Data source settings page Delete button''
                     else ByTestId ''Data source settings page Delete button'')"

definition confirmButton :: "nat list \<Rightarrow> locator" where
  "confirmButton v = (if major_lt_10 v then ByRole ''button'' ''Confirm Modal Danger Button''
                      else ByTestId ''data-testid Confirm Modal Danger Button'')"

text \<open>
  \<^verbatim>\<open>clickAddPanelButton\<close>: the selectors are looked up in their order with
  \<^verbatim>\<open>page.$\<close>; the first one present is clicked (the click itself may time out);
  with none present the function throws.
\<close>

record page_state =
  present :: "string \<Rightarrow> bool"
  click_ok :: "string \<Rightarrow> bool"

definition add_panel_selectors :: "string list" where
  \<open>add_panel_selectors =
     [''[data-testid="data-testid Create new panel button"]'',
      ''[data-testid="add-panel-button"]'',
      ''button[aria-label="Add new panel"]'',
      ''button:has-text("Add visualization")'']\<close>

fun click_first :: "page_state \<Rightarrow> string list \<Rightarrow> js_error + string" where
  "click_first p [] = Inl NotFoundError"
| "click_first p (sel # sels) =
     (if present p sel then (if click_ok p sel then Inr sel else Inl TimeoutError)
      else click_first p sels)"

definition clickAddPanelButton :: "page_state \<Rightarrow> js_error + string" where
  "clickAddPanelButton p = click_first p add_panel_selectors"

section \<open>The scenario scripts\<close>

text \<open>
  The statements of the two scenarios of senario.spec.ts. A scenario is the list of its
  statements in program order; the browser and the host application are the environment.
\<close>

datatype step =
    OnResponse
  | GetVersion
  | Goto string
  | WaitForTimeout nat
  | Click locator
  | Fill locator string
  | InputValue locator
  | ExpectVisible locator nat
  | TextContent locator
  | ExpectTextContains string
  | ClickAddPanel
  | LogHealth
  | FinalValidation

text \<open>
  The environment of one run. \<open>step_ok i\<close>: the page operation of statement \<open>i\<close> finds
  its target in time (Playwright throws a timeout error otherwise). \<open>traffic i\<close>: the
  exchanges whose handlers complete while statement \<open>i\<close> is awaited. \<open>alert_visible\<close>
  and \<open>alert_text\<close>: the alert element after the first "Save & test", its text
  \<open>None\<close> when \<^verbatim>\<open>textContent()\<close> gives \<^verbatim>\<open>null\<close>. \<open>add_panel_page\<close>: the page
  as \<^verbatim>\<open>clickAddPanelButton\<close> finds it. \<open>health_body\<close>: the JSON body of
  \<^verbatim>\<open>GET /api/health\<close>, \<open>None\<close> when the request or its parsing fails.
\<close>

record host =
  step_ok :: "nat \<Rightarrow> bool"
  traffic :: "nat \<Rightarrow> exchange list"
  alert_visible :: bool
  alert_text :: "string option"
  add_panel_page :: page_state
  health_body :: "json option"

datatype script_log =
    SLogHealthPassed jsval
  | SLogHealthNotReceived
  | SLogClickedAddPanel string
  | SLogLastResponse json
  | SLogTestCompleted
  | SLogTestFailed int
  | SLogNoResponse

text \<open>\<open>listening\<close>: the \<^verbatim>\<open>page.on('response', ...)\<close> handler has been attached.\<close>

record run_state =
  listening :: bool
  capture :: capture_state
  script_log :: "script_log list"

definition init_run :: run_state where
  "init_run = \<lparr>listening = False, capture = init_capture, script_log = []\<rparr>"

text \<open>\<^verbatim>\<open>getGrafanaVersion\<close>: \<^verbatim>\<open>body.version\<close> of the health endpoint's JSON.\<close>

definition getGrafanaVersion :: "host \<Rightarrow> js_error + jsval" where
  "getGrafanaVersion h =
     (case health_body h of None \<Rightarrow> Inl RequestFailed | Some b \<Rightarrow> get_field F_version (Val b))"

text \<open>
  \<^verbatim>\<open>FinalTestValidation\<close>: it looks at the last captured response and logs; it has
  no \<^verbatim>\<open>expect\<close> and no \<^verbatim>\<open>throw\<close>.
\<close>

definition FinalTestValidation :: "captured list \<Rightarrow> script_log list" where
  "FinalTestValidation rs =
     (if length rs > 0 then
        [SLogLastResponse (c_json (last rs)),
         if c_status (last rs) = 200 then SLogTestCompleted else SLogTestFailed (c_status (last rs))]
      else [SLogNoResponse])"

text \<open>\<^verbatim>\<open>if (healthResponse) { log(... healthResponse.message) } else { log(...) }\<close>;
  the variable starts as \<^verbatim>\<open>null\<close>.\<close>

definition log_health :: "json option \<Rightarrow> script_log list" where
  "log_health hr =
     (case hr of
        None \<Rightarrow> [SLogHealthNotReceived]
      | Some j \<Rightarrow> if truthy (Val j) then [SLogHealthPassed (opt_field F_message (Val j))]
                  else [SLogHealthNotReceived])"

text \<open>
  The exchanges that complete while a statement is awaited go through the handler, if
  it is attached; an exchange that completes with no handler attached is not seen.
\<close>

definition deliver :: "host \<Rightarrow> nat \<Rightarrow> run_state \<Rightarrow> run_state" where
  "deliver h i st =
     (if listening st then st\<lparr>capture := foldl on_response (capture st) (traffic h i)\<rparr>
      else st)"

text \<open>
  One statement. \<^verbatim>\<open>page.on\<close> attaches the handler. Reading the version is a request
  of the test itself, not of the page, and is awaited like the page operations. A page
  operation throws when its target is not
  found in time; an \<^verbatim>\<open>expect\<close> throws when it does not hold (\<^verbatim>\<open>toContain\<close> on
  \<^verbatim>\<open>null\<close> too); waiting and logging do not throw.
\<close>

fun exec_step :: "host \<Rightarrow> nat \<Rightarrow> step \<Rightarrow> run_state \<Rightarrow> js_error + run_state" where
  "exec_step h i OnResponse st = Inr (st\<lparr>listening := True\<rparr>)"
| "exec_step h i GetVersion st =
     (case getGrafanaVersion h of Inl e \<Rightarrow> Inl e | Inr v \<Rightarrow> Inr (deliver h i st))"
| "exec_step h i (Goto u) st = (if step_ok h i then Inr (deliver h i st) else Inl TimeoutError)"
| "exec_step h i (WaitForTimeout ms) st = Inr (deliver h i st)"
| "exec_step h i (Click l) st = (if step_ok h i then Inr (deliver h i st) else Inl TimeoutError)"
| "exec_step h i (Fill l v) st = (if step_ok h i then Inr (deliver h i st) else Inl TimeoutError)"
| "exec_step h i (InputValue l) st = (if step_ok h i then Inr (deliver h i st) else Inl TimeoutError)"
| "exec_step h i (ExpectVisible l ms) st =
     (if alert_visible h then Inr (deliver h i st) else Inl AssertionFailed)"
| "exec_step h i (TextContent l) st =
     (if step_ok h i then Inr (deliver h i st) else Inl TimeoutError)"
| "exec_step h i (ExpectTextContains sub) st =
     (case alert_text h of
        None \<Rightarrow> Inl AssertionFailed
      | Some t \<Rightarrow> if str_includes t sub then Inr st else Inl AssertionFailed)"
| "exec_step h i ClickAddPanel st =
     (case clickAddPanelButton (add_panel_page h) of
        Inl e \<Rightarrow> Inl e
      | Inr sel \<Rightarrow> Inr ((deliver h i st)\<lparr>script_log := script_log st @ [SLogClickedAddPanel sel]\<rparr>))"
| "exec_step h i LogHealth st =
     Inr (st\<lparr>script_log := script_log st @ log_health (healthResponse (capture st))\<rparr>)"
| "exec_step h i FinalValidation st =
     Inr (st\<lparr>script_log := script_log st @ FinalTestValidation (responses (capture st))\<rparr>)"

text \<open>
  A run: the statements are executed in order; the first one that throws ends the test
  (no statement of the scripts is inside a \<^verbatim>\<open>try\<close>). \<open>performed\<close> lists the
  statements that completed.
\<close>

record outcome =
  result :: "js_error option"
  performed :: "step list"
  final :: run_state

fun run_steps :: "host \<Rightarrow> nat \<Rightarrow> step list \<Rightarrow> run_state \<Rightarrow> outcome" where
  "run_steps h i [] st = \<lparr>result = None, performed = [], final = st\<rparr>"
| "run_steps h i (s # ss) st =
     (case exec_step h i s st of
        Inl e \<Rightarrow> \<lparr>result = Some e, performed = [], final = st\<rparr>
      | Inr st' \<Rightarrow> (let out = run_steps h (i + 1) ss st' in out\<lparr>performed := s # performed out\<rparr>))"

datatype terminal = Completed | Failed

definition settles :: "outcome \<Rightarrow> terminal" where
  "settles out = (if result out = None then Completed else Failed)"

text \<open>The first scenario (the one that chooses by major version), steps 1 to 4.\<close>

definition script_v1 :: "nat list \<Rightarrow> step list" where
  \<open>script_v1 v =
     [OnResponse,
      GetVersion,
      Goto (''http://localhost:3000'' @ basePath v),
      WaitForTimeout 1000,
      Click (ByRole ''button'' ''Warp10''),
      Fill (ByCss ''#basic-settings-name'') ''test_warp10'',
      Fill (ByCss ''#url'') ''http://warp10:8080'',
      InputValue (ByCss ''#url''),
      Click (ByRole ''button'' (saveButtonName v)),
      WaitForTimeout 1000,
      LogHealth,
      Click (ByRole ''link'' ''Build a dashboard''),
      WaitForTimeout 500,
      Click (ByTestId ''data-testid Create new panel button''),
      WaitForTimeout 500,
      Click (ByCssHasText ''[data-testid="data-source-card"] span'' ''test_warp10''),
      WaitForTimeout 500,
      Fill (FirstOf (ByCss ''.query-editor-row textarea'')) ''1 2 +'',
      Click (ByTestId ''data-testid RefreshPicker run button''),
      WaitForTimeout 500,
      FinalValidation,
      Goto (''http://localhost:3000'' @ myDsPath v),
      Click (ByRole ''link'' ''test_warp10''),
      WaitForTimeout 500,
      Click (deleteButton v),
      Click (confirmButton v)]\<close>

text \<open>The second scenario, with the refused connection first.\<close>

definition script_v2 :: "step list" where
  \<open>script_v2 =
     [OnResponse,
      GetVersion,
      Goto ''http://localhost:3000/connections/datasources/new'',
      WaitForTimeout 1000,
      Click (ByRole ''button'' ''Warp10''),
      Fill (ByCss ''#basic-settings-name'') ''test_warp10'',
      Fill (ByCss ''#url'') ''http://localhost:9999'',
      Click (ByRole ''button'' ''Save & test''),
      ExpectVisible (ByCss ''[data-testid="data-testid Alert info"]'') 3000,
      TextContent (ByCss ''[data-testid="data-testid Alert info"]''),
      ExpectTextContains ''connect: connection refused'',
      Fill (ByCss ''#url'') ''http://warp10:8080'',
      InputValue (ByCss ''#url''),
      WaitForTimeout 1000,
      Click (ByRole ''button'' ''Save & test''),
      WaitForTimeout 1000,
      LogHealth,
      Click (ByRole ''link'' ''Build a dashboard''),
      WaitForTimeout 500,
      ClickAddPanel,
      WaitForTimeout 500,
      Click (ByCssHasText ''[data-testid="data-source-card"] span'' ''test_warp10''),
      WaitForTimeout 500,
      Fill (FirstOf (ByCss ''.query-editor-row textarea'')) ''1 2 +'',
      Click (ByTestId ''data-testid RefreshPicker run button''),
      WaitForTimeout 500,
      FinalValidation,
      Goto ''http://localhost:3000/connections/datasources'',
      Click (ByRole ''link'' ''test_warp10''),
      WaitForTimeout 500,
      Click (ByTestId ''Data source settings page Delete button''),
      Click (ByTestId ''data-testid Confirm Modal Danger Button'')]\<close>

text \<open>
  The tests. The first scenario calls \<^verbatim>\<open>version.split\<close> on what it has read, a
  \<^verbatim>\<open>TypeError\<close> unless the version is a string, and chooses its paths and buttons
  from it; the second only logs the version.
\<close>

definition read_version :: "host \<Rightarrow> outcome" where
  "read_version h = run_steps h 0 [OnResponse, GetVersion] init_run"

definition run_scenario_v1 :: "host \<Rightarrow> outcome" where
  "run_scenario_v1 h =
     (case getGrafanaVersion h of
        Inl e \<Rightarrow> read_version h
      | Inr (Val (JStr v)) \<Rightarrow> run_steps h 0 (script_v1 (code_units v)) init_run
      | Inr _ \<Rightarrow> (read_version h)\<lparr>result := Some TypeError\<rparr>)"

definition run_scenario_v2 :: "host \<Rightarrow> outcome" where
  "run_scenario_v2 h = run_steps h 0 script_v2 init_run"

text \<open>
  What a run did to the datasource \<^verbatim>\<open>test_warp10\<close>, read off the statements it
  performed: "Save & test" saves the datasource under the name typed before; the
  confirmation click completes the two-step deletion.
\<close>

definition datasource_saved :: "string \<Rightarrow> step list \<Rightarrow> bool" where
  "datasource_saved save tr \<longleftrightarrow>
     Fill (ByCss ''#basic-settings-name'') ''test_warp10'' \<in> set tr \<and>
     Click (ByRole ''button'' save) \<in> set tr"

definition datasource_deleted :: "locator \<Rightarrow> step list \<Rightarrow> bool" where
  "datasource_deleted confirm tr \<longleftrightarrow> Click confirm \<in> set tr"

text \<open>Whether a statement completes, whatever the state of the run.\<close>

fun step_passes :: "host \<Rightarrow> nat \<Rightarrow> step \<Rightarrow> bool" where
  "step_passes h i OnResponse = True"
| "step_passes h i GetVersion = (case getGrafanaVersion h of Inl e \<Rightarrow> False | Inr v \<Rightarrow> True)"
| "step_passes h i (Goto u) = step_ok h i"
| "step_passes h i (WaitForTimeout ms) = True"
| "step_passes h i (Click l) = step_ok h i"
| "step_passes h i (Fill l v) = step_ok h i"
| "step_passes h i (InputValue l) = step_ok h i"
| "step_passes h i (ExpectVisible l ms) = alert_visible h"
| "step_passes h i (TextContent l) = step_ok h i"
| "step_passes h i (ExpectTextContains sub) =
     (case alert_text h of None \<Rightarrow> False | Some t \<Rightarrow> str_includes t sub)"
| "step_passes h i ClickAddPanel =
     (case clickAddPanelButton (add_panel_page h) of Inl e \<Rightarrow> False | Inr sel \<Rightarrow> True)"
| "step_passes h i LogHealth = True"
| "step_passes h i FinalValidation = True"



text \<open>The statements of a script that complete: those before the first one that throws.\<close>

fun passing_prefix :: "host \<Rightarrow> nat \<Rightarrow> step list \<Rightarrow> step list" where
  "passing_prefix h i [] = []"
| "passing_prefix h i (s # ss) =
     (if step_passes h i s then s # passing_prefix h (i + 1) ss else [])"

text \<open>The confirmation click of either scenario (role button below version 10, test id
  from version 10 on).\<close>

definition cleanup_done :: "step list \<Rightarrow> bool" where
  "cleanup_done tr \<longleftrightarrow>
     datasource_deleted (ByRole ''button'' ''Confirm Modal Danger Button'') tr \<or>
     datasource_deleted (ByTestId ''data-testid Confirm Modal Danger Button'') tr"

definition refusal_shown :: "host \<Rightarrow> bool" where
  "refusal_shown h \<longleftrightarrow>
     alert_visible h \<and>
     (case alert_text h of None \<Rightarrow> False
      | Some t \<Rightarrow> str_includes t ''connect: connection refused'')"

section \<open>The macro test\<close>

text \<open>
  The positive part of the macro test of datasource\_test.spec.ts. \<open>postData\<close> is
  \<open>None\<close> where \<^verbatim>\<open>req.postData()\<close> is \<^verbatim>\<open>null\<close>.
\<close>

record request =
  rq_url :: string
  rq_method :: string
  postData :: "string option"

definition macroCode :: string where
  "macroCode = ''<%\<newline>  2 +\<newline>%> 'addmacro' STORE\<newline>\<newline>10 32 $addmacro\<newline>''"

definition macro_marker :: string where
  "macro_marker = '''addmacro' STORE''"

text \<open>The predicate given to \<^verbatim>\<open>page.waitForRequest\<close>.\<close>

definition macro_request_filter :: "request \<Rightarrow> bool" where
  "macro_request_filter req \<longleftrightarrow>
     str_includes (rq_url req) ''/api/ds/query'' \<and> rq_method req = ''POST'' \<and>
     (case postData req of None \<Rightarrow> False | Some d \<Rightarrow> d \<noteq> [] \<and> str_includes d macro_marker)"

text \<open>
  \<^verbatim>\<open>page.waitForRequest(pred)\<close> over the requests the page issues from the call on:
  the first one that satisfies the predicate, a timeout when there is none.
\<close>

definition waitForRequest :: "(request \<Rightarrow> bool) \<Rightarrow> request list \<Rightarrow> js_error + request" where
  "waitForRequest pred reqs =
     (case find pred reqs of None \<Rightarrow> Inl TimeoutError | Some req \<Rightarrow> Inr req)"

text \<open>
  \<^verbatim>\<open>expect(x).toContain(s)\<close> for a string \<open>s\<close>: a substring test on a string, an
  element test (strict equality) on an array; it fails on anything else.
\<close>

fun toContain :: "jsval \<Rightarrow> string \<Rightarrow> bool" where
  "toContain (Val (JStr t)) s = str_includes t s"
| "toContain (Val (JArr xs)) s = (JStr s \<in> set xs)"
| "toContain v s = False"

text \<open>
  \<^verbatim>\<open>JSON.parse(macroRequest.postData() || '{}')\<close> and the assertion on
  \<^verbatim>\<open>macroPayload.queries?.[0]?.expr\<close>. \<^verbatim>\<open>JSON.parse\<close> is a parameter: \<open>None\<close> is
  its \<^verbatim>\<open>SyntaxError\<close>.
\<close>

definition request_text :: "request \<Rightarrow> string" where
  "request_text req = (case postData req of None \<Rightarrow> ''{}'' | Some d \<Rightarrow> if d = [] then ''{}'' else d)"

definition first_query_expr :: "json \<Rightarrow> js_error + jsval" where
  "first_query_expr payload =
     (case get_field F_queries (Val payload) of
        Inl e \<Rightarrow> Inl e
      | Inr qs \<Rightarrow> Inr (opt_field F_expr (opt_index0 qs)))"

definition check_macro_payload :: "(string \<Rightarrow> json option) \<Rightarrow> request \<Rightarrow> js_error + unit" where
  "check_macro_payload parse req =
     (case parse (request_text req) of
        None \<Rightarrow> Inl SyntaxError
      | Some payload \<Rightarrow>
          (case first_query_expr payload of
             Inl e \<Rightarrow> Inl e
           | Inr expr \<Rightarrow> if toContain expr macro_marker then Inr () else Inl AssertionFailed))"

text \<open>
  \<^verbatim>\<open>Promise.all([page.waitForRequest(...), runButton.click()])\<close>, then the check of
  the payload. \<open>clicked\<close>: the click on the run button succeeds. \<open>reqs\<close>: the requests
  the page issues once the wait has started.
\<close>

definition positive_macro_test ::
  "(string \<Rightarrow> json option) \<Rightarrow> bool \<Rightarrow> request list \<Rightarrow> js_error + unit" where
  "positive_macro_test parse clicked reqs =
     (if \<not> clicked then Inl TimeoutError
      else (case waitForRequest macro_request_filter reqs of
              Inl e \<Rightarrow> Inl e
            | Inr req \<Rightarrow> check_macro_payload parse req))"

text \<open>What the test establishes about a request when it passes.\<close>

definition marker_in_request :: "(string \<Rightarrow> json option) \<Rightarrow> request \<Rightarrow> bool" where
  "marker_in_request parse req \<longleftrightarrow>
     rq_method req = ''POST'' \<and> str_includes (rq_url req) ''/api/ds/query'' \<and>
     (case postData req of
        None \<Rightarrow> False
      | Some d \<Rightarrow> str_includes d macro_marker \<and>
          (case parse d of
             None \<Rightarrow> False
           | Some payload \<Rightarrow>
               toContain (opt_field F_expr (opt_index0 (opt_field F_queries (Val payload))))
                 macro_marker))"

section \<open>Timestamp conversion\<close>

text \<open>
  Modelled from the spec: the conversion of a series timestamp from microseconds to
  milliseconds is done by the plugin, whose code is not among the test sources; the
  specification gives it as exact integer division by 1000.
\<close>

definition us_to_ms :: "int \<Rightarrow> int" where
  "us_to_ms t = t div 1000"

section \<open>The health report of a refused connection\<close>

text \<open>The text the second scenario looks for in the alert.\<close>

definition refusal_indicator :: string where
  "refusal_indicator = ''connect: connection refused''"

text \<open>
  Modelled from the spec: the datasource health endpoint is served by the plugin's
  backend behind the host application, and neither is among the test sources. The
  specification gives it as returning \<^verbatim>\<open>{status, message}\<close>, a success report when the
  backend is reached, and a report that is not a success and whose message carries the
  connection-refusal indicator when the connection is refused. \<open>accepts\<close> tells which
  backend URLs accept a connection.
\<close>

definition health_validation :: "(string \<Rightarrow> bool) \<Rightarrow> string \<Rightarrow> json" where
  "health_validation accepts backend =
     (if accepts backend
      then JObj [(''status'', JStr ''OK''), (''message'', JStr ''Health check succeeded'')]
      else JObj [(''status'', JStr ''ERROR''),
                 (''message'', JStr (''Health check failed: dial '' @ backend @ '': '' @
                                     refusal_indicator))])"

text \<open>A \<^verbatim>\<open>{status: "ok"}\<close>-shaped report, and the message field of a report.\<close>

definition ok_shaped :: "json \<Rightarrow> bool" where
  "ok_shaped rep \<longleftrightarrow>
     opt_field F_status (Val rep) = Val (JStr ''ok'') \<or>
     opt_field F_status (Val rep) = Val (JStr ''OK'')"

definition message_of :: "json \<Rightarrow> string option" where
  "message_of rep = (case opt_field F_message (Val rep) of Val (JStr m) \<Rightarrow> Some m | _ \<Rightarrow> None)"

definition refusal_in_message :: "json \<Rightarrow> bool" where
  "refusal_in_message rep \<longleftrightarrow>
     (case message_of rep of None \<Rightarrow> False | Some m \<Rightarrow> str_includes m refusal_indicator)"

text \<open>The exchange of the health endpoint that carries the report \<open>rep\<close>; its URL is
  one that the health branch of the listener matches.\<close>

definition health_exchange :: "json \<Rightarrow> exchange" where
  "health_exchange rep =
     \<lparr>url = ''http://localhost:3000/api/datasources/uid/test_warp10/health'',
      req_method = ''GET'', body = Some rep,
      status = (if ok_shaped rep then 200 else 400)\<rparr>"

text \<open>
  Modelled from the spec: the host application surfaces the report of the health
  endpoint. A host answers the first "Save & test" of the second scenario (statement 7)
  with the report \<open>rep\<close> when the health exchange carrying it completes while that click
  is awaited and the alert shows the report's message.
\<close>

definition answers_with :: "host \<Rightarrow> json \<Rightarrow> bool" where
  "answers_with h rep \<longleftrightarrow>
     traffic h 7 = [health_exchange rep] \<and> alert_visible h \<and> alert_text h = message_of rep"

section \<open>The order of listeners and page actions in the tests\<close>






















section \<open>Concrete inputs\<close>

definition parsed_query_exchange :: exchange where
  "parsed_query_exchange =
     \<lparr>url = ''http://localhost:3000/api/ds/query?ds_type=clevercloud-warp10-datasource&requestId=Q100'',
      req_method = ''POST'',
      body = Some (JObj [(''results'', JObj [(''A'', JObj [(''status'', JNum 200)])])]),
      status = 200\<rparr>"

definition unparseable_query_exchange :: exchange where
  "unparseable_query_exchange =
     \<lparr>url = ''http://localhost:3000/api/ds/query?ds_type=clevercloud-warp10-datasource&requestId=Q101'',
      req_method = ''POST'', body = None, status = 502\<rparr>"

definition garbled_query_exchange :: exchange where
  "garbled_query_exchange =
     \<lparr>url = ''http://localhost:3000/api/ds/query?ds_type=clevercloud-warp10-datasource&requestId=Q102'',
      req_method = ''POST'', body = None, status = 200\<rparr>"

definition two_failures_response :: captured where
  "two_failures_response =
     \<lparr>c_url = ''http://localhost:3000/api/ds/query?ds_type=clevercloud-warp10-datasource'',
      c_json = JObj [(''results'', JObj [(''A'', JObj [(''status'', JNum 500)])])],
      c_status = 500\<rparr>"

definition no_result_A_response :: captured where
  "no_result_A_response =
     \<lparr>c_url = ''http://localhost:3000/api/ds/query?ds_type=clevercloud-warp10-datasource'',
      c_json = JObj [(''results'', JObj [(''B'', JObj [(''status'', JNum 500)])])],
      c_status = 500\<rparr>"

definition unknown_version :: "nat list" where
  "unknown_version = code_units ''nightly-build.4''"

text \<open>A no-break space, U+00A0, before \<^verbatim>\<open>9.3.0\<close>.\<close>

definition padded_version_9 :: "nat list" where
  "padded_version_9 = 0xA0 # code_units ''9.3.0''"

definition only_add_visualization :: page_state where
  \<open>only_add_visualization =
     \<lparr>present = (\<lambda>sel. sel = ''button:has-text("Add visualization")''),
      click_ok = (\<lambda>sel. True)\<rparr>\<close>

text \<open>A host on which every page operation succeeds and the panel button is the last
  selector of the list; its alert and its traffic are set per example.\<close>

definition cooperative_host :: host where
  "cooperative_host =
     \<lparr>step_ok = (\<lambda>i. True), traffic = (\<lambda>i. []), alert_visible = True,
      alert_text = Some ''Plugin health check failed: dial tcp 127.0.0.1:9999: connect: connection refused'',
      add_panel_page = only_add_visualization,
      health_body = Some (JObj [(''version'', JStr ''11.2.0'')])\<rparr>"

definition other_alert_host :: host where
  "other_alert_host = cooperative_host\<lparr>alert_text := Some ''Plugin health check failed: 502 Bad Gateway''\<rparr>"

text \<open>\<^verbatim>\<open>JSON.parse\<close> as far as an example needs it: its value at one text.\<close>

definition parse_at :: "string \<Rightarrow> json \<Rightarrow> string \<Rightarrow> json option" where
  "parse_at raw v s = (if s = raw then Some v else None)"

definition marker_only_body :: string where
  \<open>marker_only_body = ''{"queries":[{"refId":"A","expr":"'addmacro' STORE"}]}''\<close>

definition marker_only_request :: request where
  "marker_only_request =
     \<lparr>rq_url = ''http://localhost:3000/api/ds/query?ds_type=clevercloud-warp10-datasource&requestId=Q105'',
      rq_method = ''POST'', postData = Some marker_only_body\<rparr>"

definition marker_only_payload :: json where
  "marker_only_payload =
     JObj [(''queries'', JArr [JObj [(''refId'', JStr ''A''), (''expr'', JStr '''addmacro' STORE'')]])]"

definition macro_body :: string where
  \<open>macro_body =
     ''{"queries":[{"refId":"A","expr":"<%'' @ [CHR 0x5C, CHR ''n''] @ ''  2 +'' @
     [CHR 0x5C, CHR ''n''] @ ''%> 'addmacro' STORE'' @ [CHR 0x5C, CHR ''n'', CHR 0x5C, CHR ''n''] @
     ''10 32 $addmacro'' @ [CHR 0x5C, CHR ''n''] @ ''"}]}''\<close>

definition macro_request :: request where
  "macro_request =
     \<lparr>rq_url = ''http://localhost:3000/api/ds/query?ds_type=clevercloud-warp10-datasource&requestId=Q106'',
      rq_method = ''POST'', postData = Some macro_body\<rparr>"

definition macro_payload :: json where
  "macro_payload = JObj [(''queries'', JArr [JObj [(''refId'', JStr ''A''), (''expr'', JStr macroCode)]])]"

text \<open>The same traffic under two orders of the first statements: the listener attached
  after the navigation, and before it.\<close>

definition early_traffic_host :: host where
  "early_traffic_host =
     cooperative_host\<lparr>traffic := (\<lambda>i. if i \<le> 1 then [parsed_query_exchange] else [])\<rparr>"

definition late_listener_script :: "step list" where
  "late_listener_script = [Goto ''http://localhost:3000'', OnResponse, WaitForTimeout 3000]"


text \<open>A backend table with the Warp10 server only, and a host that answers the refused
  connection with the report of the health endpoint.\<close>

definition only_warp10 :: "string \<Rightarrow> bool" where
  "only_warp10 backend \<longleftrightarrow> backend = ''http://warp10:8080''"

definition refusing_host :: host where
  "refusing_host =
     cooperative_host
       \<lparr>traffic := (\<lambda>i. if i = 7
                         then [health_exchange (health_validation only_warp10 ''http://localhost:9999'')]
                         else []),
        alert_text := message_of (health_validation only_warp10 ''http://localhost:9999'')\<rparr>"





section \<open>Properties of the response listener\<close>

lemma str_includes_sublist: "str_includes s sub \<longleftrightarrow> sublist sub s"
  by (induction s) (auto simp: sublist_Cons_right)

lemma responses_capture_health: "responses (capture_health s e) = responses s"
  by (simp add: capture_health_def split: option.splits)

lemma responses_capture_query:
  "responses (capture_query flt s e) = responses s @ entries_of flt e"
  by (simp add: capture_query_def entries_of_def split: option.splits)

lemma responses_foldl_on_response:
  "responses (foldl on_response s es) = responses s @ concat (map (entries_of query_filter) es)"
  by (induction es arbitrary: s)
     (simp_all add: on_response_def responses_capture_query responses_capture_health)

lemma drain_capture_all: "drain (capture_all es) = concat (map (entries_of query_filter) es)"
  by (simp add: drain_def capture_all_def responses_foldl_on_response init_capture_def)

lemma responses_foldl_capture_query:
  "responses (foldl (capture_query flt) s es) = responses s @ concat (map (entries_of flt) es)"
  by (induction es arbitrary: s) (simp_all add: responses_capture_query)

lemma drain_capture_all_warp10:
  "drain (capture_all_warp10 es) = concat (map (entries_of warp10_query_filter) es)"
  by (simp add: drain_def capture_all_warp10_def responses_foldl_capture_query init_capture_def)

lemma concat_entries_filter:
  "concat (map (entries_of flt) (filter flt es)) = concat (map (entries_of flt) es)"
  by (induction es) (simp_all add: entries_of_def)

lemma length_concat_entries:
  "length (concat (map (entries_of flt) es)) =
   length (filter (\<lambda>e. flt e \<and> body e \<noteq> None) es)"
  by (induction es) (auto simp add: entries_of_def split: option.splits)

lemma urls_concat_entries:
  "map c_url (concat (map (entries_of flt) es)) =
   map url (filter (\<lambda>e. flt e \<and> body e \<noteq> None) es)"
  by (induction es) (auto simp add: entries_of_def split: option.splits)

lemma query_filter_examples:
  "query_filter parsed_query_exchange" "query_filter unparseable_query_exchange"
  "query_filter garbled_query_exchange"
  by (simp_all add: query_filter_def parsed_query_exchange_def unparseable_query_exchange_def
        garbled_query_exchange_def)

lemma health_filter_examples:
  "\<not> health_filter parsed_query_exchange" "\<not> health_filter unparseable_query_exchange"
  "\<not> health_filter garbled_query_exchange"
  by (simp_all add: health_filter_def parsed_query_exchange_def unparseable_query_exchange_def
        garbled_query_exchange_def)

text \<open>
  C2, as the code has it. A matching exchange whose body is not JSON is not appended to
  the buffer: the handler leaves \<^verbatim>\<open>responses\<close> as it was and logs
  \<^verbatim>\<open>Failed to parse JSON for: <url>\<close> (and, where the URL is also a health URL,
  the health block's own failure line).
\<close>

theorem unparseable_body_logged_not_captured:
  assumes "query_filter e" and "body e = None"
  shows "responses (on_response s e) = responses s \<and>
         capture_log (on_response s e) =
           capture_log s @ [LogFailedParse (url e)] @
             (if health_filter e then [LogHealthParseFailed] else [])"
  using assms by (simp add: on_response_def capture_query_def capture_health_def)

theorem unparseable_body_logged_not_captured_witness:
  "query_filter garbled_query_exchange \<and> body garbled_query_exchange = None \<and>
   responses (on_response init_capture garbled_query_exchange) = [] \<and>
   capture_log (on_response init_capture garbled_query_exchange) =
     [LogFailedParse (url garbled_query_exchange)]"
proof -
  have f: "query_filter garbled_query_exchange"
    by (rule query_filter_examples)
  have b: "body garbled_query_exchange = None"
    by (simp add: garbled_query_exchange_def)
  show ?thesis
    using unparseable_body_logged_not_captured [OF f b, of init_capture] f b
    by (simp add: init_capture_def health_filter_examples)
qed

text \<open>
  C2 as stated fails: after a parsed exchange and a matching exchange with an unparseable
  body, the buffer holds the first one only; nothing in it stands for the second.
\<close>

theorem parse_failure_dropped_counterexample:
  "query_filter garbled_query_exchange \<and> body garbled_query_exchange = None \<and>
   map c_url (drain (capture_all [parsed_query_exchange, garbled_query_exchange])) =
     [url parsed_query_exchange] \<and>
   url garbled_query_exchange \<notin>
     set (map c_url (drain (capture_all [parsed_query_exchange, garbled_query_exchange])))"
  by (simp add: drain_capture_all entries_of_def query_filter_examples)
     (simp add: parsed_query_exchange_def garbled_query_exchange_def)

text \<open>
  C6, as the code has it. \<^verbatim>\<open>drain\<close> returns one entry for each exchange that matches
  the filter and has a JSON body, in the order of the exchanges; exchanges that do not
  match change nothing. This holds of the handler of senario.spec.ts and of the handler
  with the narrower filter of query-editor.spec.ts.
\<close>

theorem drain_parsed_matches_in_order:
  "drain (capture_all es) = concat (map (entries_of query_filter) es) \<and>
   length (drain (capture_all es)) =
     length (filter (\<lambda>e. query_filter e \<and> body e \<noteq> None) es) \<and>
   map c_url (drain (capture_all es)) =
     map url (filter (\<lambda>e. query_filter e \<and> body e \<noteq> None) es) \<and>
   drain (capture_all (filter query_filter es)) = drain (capture_all es) \<and>
   drain (capture_all_warp10 es) = concat (map (entries_of warp10_query_filter) es) \<and>
   drain (capture_all_warp10 (filter warp10_query_filter es)) = drain (capture_all_warp10 es)"
  by (simp add: drain_capture_all drain_capture_all_warp10 length_concat_entries
        urls_concat_entries concat_entries_filter)

text \<open>
  C6 as stated fails: one matching exchange has completed, and \<^verbatim>\<open>drain\<close> returns
  no entry, because its body was not JSON.
\<close>

theorem drain_count_counterexample:
  "length (filter query_filter [unparseable_query_exchange]) = 1 \<and>
   drain (capture_all [unparseable_query_exchange]) = []"
  by (simp add: drain_capture_all entries_of_def query_filter_examples)
     (simp add: unparseable_query_exchange_def)

section \<open>Properties of the response-inspection loop\<close>

lemma loop_from_append:
  "loop_from i n (xs @ ys) = loop_from i n xs @ loop_from (i + length xs) n ys"
  by (induction xs arbitrary: i) simp_all

lemma evaluated_rules_append:
  "evaluated_rules (xs @ ys) = evaluated_rules xs @ evaluated_rules ys"
  by (induction xs rule: evaluated_rules.induct) simp_all

lemma logged_failures_append:
  "logged_failures (xs @ ys) = logged_failures xs @ logged_failures ys"
  by (induction xs rule: logged_failures.induct) simp_all

lemma failures_check_rules:
  "logged_failures (check_rules n r a) = take 1 (filter (\<lambda>q. \<not> rule_holds q r a) all_rules)"
  by (simp add: check_rules_def all_rules_def)

lemma evaluated_check_rules:
  "evaluated_rules (check_rules n r a) =
     takeWhile (\<lambda>q. rule_holds q r a) all_rules @
     take 1 (dropWhile (\<lambda>q. rule_holds q r a) all_rules)"
  by (simp add: check_rules_def all_rules_def)

lemma failures_check_response:
  "logged_failures (check_response i n r) = logged_failures (check_response j m r)"
  by (simp add: check_response_def failures_check_rules)

lemma evaluated_check_response:
  "evaluated_rules (check_response i n r) = evaluated_rules (check_response j m r)"
  by (simp add: check_response_def evaluated_check_rules)

lemma failures_loop_from:
  "logged_failures (loop_from i n rs) = logged_failures (loop_from j m rs)"
proof (induction rs arbitrary: i j)
  case Nil
  then show ?case by simp
next
  case (Cons r rs)
  from Cons.IH [of "i + 1" "j + 1"] failures_check_response [of i n r j m]
  show ?case by (simp add: logged_failures_append)
qed

lemma evaluated_loop_from:
  "evaluated_rules (loop_from i n rs) = evaluated_rules (loop_from j m rs)"
proof (induction rs arbitrary: i j)
  case Nil
  then show ?case by simp
next
  case (Cons r rs)
  from Cons.IH [of "i + 1" "j + 1"] evaluated_check_response [of i n r j m]
  show ?case by (simp add: evaluated_rules_append)
qed

lemma checking_lines_append:
  "checking_lines (xs @ ys) = checking_lines xs @ checking_lines ys"
  by (induction xs rule: checking_lines.induct) simp_all

lemma checking_lines_check_rules: "checking_lines (check_rules n r a) = []"
  by (simp add: check_rules_def)

lemma evaluated_check_response_reached:
  "evaluated_rules (check_response i n r) = rules_reached r"
  by (simp add: check_response_def rules_reached_def evaluated_check_rules)

lemma failures_check_response_logged:
  "logged_failures (check_response i n r) = failure_logged r"
  by (simp add: check_response_def failure_logged_def failures_check_rules)

lemma checking_lines_check_response: "checking_lines (check_response i n r) = [i + 1]"
  by (simp add: check_response_def checking_lines_check_rules)

lemma evaluated_loop_from_reached:
  "evaluated_rules (loop_from i n rs) = concat (map rules_reached rs)"
  by (induction rs arbitrary: i)
     (simp_all add: evaluated_rules_append evaluated_check_response_reached)

lemma failures_loop_from_logged:
  "logged_failures (loop_from i n rs) = concat (map failure_logged rs)"
  by (induction rs arbitrary: i)
     (simp_all add: logged_failures_append failures_check_response_logged)

lemma checking_lines_loop_from:
  "checking_lines (loop_from i n rs) = map Suc [i ..< i + length rs]"
proof (induction rs arbitrary: i)
  case Nil
  then show ?case by simp
next
  case (Cons r rs)
  have u: "[i ..< i + length (r # rs)] = i # [i + 1 ..< (i + 1) + length rs]"
    by (simp add: upt_rec)
  have "checking_lines (loop_from i n (r # rs)) =
        (i + 1) # checking_lines (loop_from (i + 1) n rs)"
    by (simp add: checking_lines_append checking_lines_check_response)
  also have "\<dots> = (i + 1) # map Suc [i + 1 ..< (i + 1) + length rs]"
    by (simp only: Cons.IH [of "i + 1"])
  also have "\<dots> = map Suc [i ..< i + length (r # rs)]"
    by (simp only: u list.map Suc_eq_plus1)
  finally show ?case .
qed

text \<open>
  C3, as the code has it. For one response the rules are evaluated in their order up to
  and including the first one that fails; that failure is the only one logged, and the
  rules after it are not evaluated. The loop goes on with the next response: every
  response of the array is announced by its "Checking response" line, and the rules
  evaluated and the failures logged by the whole loop are those of each response in
  turn.
\<close>

theorem check_rules_stops_at_first_failure:
  "evaluated_rules (check_rules n r a) =
     takeWhile (\<lambda>q. rule_holds q r a) all_rules @
     take 1 (dropWhile (\<lambda>q. rule_holds q r a) all_rules) \<and>
   logged_failures (check_rules n r a) =
     take 1 (filter (\<lambda>q. \<not> rule_holds q r a) all_rules) \<and>
   checking_lines (validation_loop rs) = map Suc [0 ..< length rs] \<and>
   evaluated_rules (validation_loop rs) = concat (map rules_reached rs) \<and>
   logged_failures (validation_loop rs) = concat (map failure_logged rs)"
  using checking_lines_loop_from [of 0 "length rs" rs]
  by (simp add: evaluated_check_rules failures_check_rules validation_loop_def
        evaluated_loop_from_reached failures_loop_from_logged)

text \<open>
  C3 as stated fails: a response with HTTP status 500 whose \<^verbatim>\<open>results.A.status\<close> is
  500 too breaks two rules, and the loop evaluates and reports the first only.
\<close>

theorem second_failure_hidden_counterexample:
  "truthy (result_A two_failures_response) \<and>
   \<not> rule_holds RuleHttpStatus two_failures_response (result_A two_failures_response) \<and>
   \<not> rule_holds RuleResultStatus two_failures_response (result_A two_failures_response) \<and>
   evaluated_rules (check_response 0 1 two_failures_response) = [RuleHttpStatus] \<and>
   logged_failures (check_response 0 1 two_failures_response) = [RuleHttpStatus]"
  by (simp add: check_response_def check_rules_def result_A_def two_failures_response_def
        opt_field_def)

text \<open>
  C10, as the code has it. A captured response whose body has no \<^verbatim>\<open>results.A\<close> is
  skipped: its iteration logs the two lines "Checking" and "Skipping" and nothing else,
  so no rule is evaluated and no failure is logged for it, and the rules evaluated and
  the failures logged by the whole loop are the same with that response in the array as
  without it. The response is still an element of \<^verbatim>\<open>responses\<close>, whose length the
  step asserts to be positive before the loop: with it the step passes, and it passes
  without it as well when another response was captured.
\<close>

theorem response_without_result_A_skipped:
  assumes "result_A r = Undefined"
  shows "check_response i n r = [LogChecking (i + 1) n, LogSkipping (i + 1)] \<and>
         evaluated_rules (validation_loop (xs @ r # ys)) =
           evaluated_rules (validation_loop (xs @ ys)) \<and>
         logged_failures (validation_loop (xs @ r # ys)) =
           logged_failures (validation_loop (xs @ ys)) \<and>
         verify_responses (xs @ r # ys) = Inr (validation_loop (xs @ r # ys)) \<and>
         (xs @ ys \<noteq> [] \<longrightarrow> verify_responses (xs @ ys) = Inr (validation_loop (xs @ ys)))"
proof -
  have s: "check_response i n r = [LogChecking (i + 1) n, LogSkipping (i + 1)]" for i n
    using assms by (simp add: check_response_def)
  have f: "logged_failures (validation_loop (xs @ r # ys)) =
           logged_failures (validation_loop (xs @ ys))"
    using failures_loop_from [of 0 "length xs + 1 + length ys" xs 0 "length xs + length ys"]
      failures_loop_from [of "length xs + 1" "length xs + 1 + length ys" ys
        "length xs" "length xs + length ys"]
    by (simp add: validation_loop_def loop_from_append logged_failures_append s)
  have e: "evaluated_rules (validation_loop (xs @ r # ys)) =
           evaluated_rules (validation_loop (xs @ ys))"
    using evaluated_loop_from [of 0 "length xs + 1 + length ys" xs 0 "length xs + length ys"]
      evaluated_loop_from [of "length xs + 1" "length xs + 1 + length ys" ys
        "length xs" "length xs + length ys"]
    by (simp add: validation_loop_def loop_from_append evaluated_rules_append s)
  have v: "verify_responses (xs @ r # ys) = Inr (validation_loop (xs @ r # ys))"
    by (simp add: verify_responses_def)
  have w: "xs @ ys \<noteq> [] \<longrightarrow> verify_responses (xs @ ys) = Inr (validation_loop (xs @ ys))"
    by (simp add: verify_responses_def)
  from s [of i n] e f v w show ?thesis by blast
qed

theorem response_without_result_A_skipped_witness:
  "result_A no_result_A_response = Undefined \<and>
   [two_failures_response] @ [] \<noteq> [] \<and>
   check_response 1 2 no_result_A_response = [LogChecking 2 2, LogSkipping 2] \<and>
   logged_failures (validation_loop [two_failures_response, no_result_A_response]) =
     logged_failures (validation_loop [two_failures_response]) \<and>
   verify_responses [two_failures_response, no_result_A_response] =
     Inr (validation_loop [two_failures_response, no_result_A_response]) \<and>
   verify_responses [two_failures_response] = Inr (validation_loop [two_failures_response])"
proof -
  have h: "result_A no_result_A_response = Undefined"
    by (simp add: result_A_def no_result_A_response_def opt_field_def)
  show ?thesis
    using response_without_result_A_skipped [OF h, of 1 2 "[two_failures_response]" "[]"] h
    by simp
qed

text \<open>
  C10 as stated fails: when the skipped response is the only one captured, the
  verification step passes with it and fails without it, so it decides the outcome.
\<close>

theorem only_response_decides_counterexample:
  "result_A no_result_A_response = Undefined \<and>
   verify_responses [no_result_A_response] = Inr [LogChecking 1 1, LogSkipping 1] \<and>
   verify_responses [] = Inl AssertionFailed"
  by (simp add: verify_responses_def validation_loop_def check_response_def result_A_def
        no_result_A_response_def opt_field_def)

section \<open>Properties of the scenario runs\<close>

lemma exec_step_passes:
  "(\<exists>st'. exec_step h i s st = Inr st') \<longleftrightarrow> step_passes h i s"
  by (cases s) (auto split: option.splits sum.splits)

lemma performed_run_steps: "performed (run_steps h i ss st) = passing_prefix h i ss"
proof (induction ss arbitrary: i st)
  case Nil
  then show ?case by simp
next
  case (Cons s ss)
  show ?case
  proof (cases "exec_step h i s st")
    case (Inl e)
    with exec_step_passes [of h i s st] have "\<not> step_passes h i s" by auto
    with Inl show ?thesis by simp
  next
    case (Inr st')
    with exec_step_passes [of h i s st] have "step_passes h i s" by auto
    with Inr Cons.IH show ?thesis by (simp add: Let_def)
  qed
qed

lemma result_run_steps: "result (run_steps h i ss st) = None \<longleftrightarrow> passing_prefix h i ss = ss"
proof (induction ss arbitrary: i st)
  case Nil
  then show ?case by simp
next
  case (Cons s ss)
  show ?case
  proof (cases "exec_step h i s st")
    case (Inl e)
    with exec_step_passes [of h i s st] have "\<not> step_passes h i s" by auto
    with Inl show ?thesis by simp
  next
    case (Inr st')
    with exec_step_passes [of h i s st] have "step_passes h i s" by auto
    with Inr Cons.IH show ?thesis by (simp add: Let_def)
  qed
qed

lemma passing_prefix_prefix: "prefix (passing_prefix h i ss) ss"
  by (induction ss arbitrary: i) simp_all

lemma getGrafanaVersion_traffic: "getGrafanaVersion (h\<lparr>traffic := t\<rparr>) = getGrafanaVersion h"
  by (simp add: getGrafanaVersion_def)

lemma step_passes_traffic: "step_passes (h\<lparr>traffic := t\<rparr>) i s = step_passes h i s"
  by (cases s) (simp_all add: getGrafanaVersion_traffic)

lemma passing_prefix_traffic: "passing_prefix (h\<lparr>traffic := t\<rparr>) i ss = passing_prefix h i ss"
  by (induction ss arbitrary: i) (simp_all add: step_passes_traffic)

lemma last_step_performed:
  assumes "x \<notin> set bs"
  shows "x \<in> set (passing_prefix h i (bs @ [x])) \<longleftrightarrow> passing_prefix h i (bs @ [x]) = bs @ [x]"
proof
  assume m: "x \<in> set (passing_prefix h i (bs @ [x]))"
  have p: "prefix (passing_prefix h i (bs @ [x])) (bs @ [x])" by (rule passing_prefix_prefix)
  then have "passing_prefix h i (bs @ [x]) = bs @ [x] \<or> prefix (passing_prefix h i (bs @ [x])) bs"
    by auto
  then show "passing_prefix h i (bs @ [x]) = bs @ [x]"
  proof
    assume "prefix (passing_prefix h i (bs @ [x])) bs"
    then have "set (passing_prefix h i (bs @ [x])) \<subseteq> set bs" by (rule set_mono_prefix)
    with m assms show ?thesis by blast
  qed simp
next
  assume "passing_prefix h i (bs @ [x]) = bs @ [x]"
  then show "x \<in> set (passing_prefix h i (bs @ [x]))" by simp
qed

lemma script_v2_split:
  "script_v2 = butlast script_v2 @ [Click (ByTestId ''data-testid Confirm Modal Danger Button'')]"
  by (simp add: script_v2_def)

lemma confirm_not_earlier_v2:
  "Click (ByTestId ''data-testid Confirm Modal Danger Button'') \<notin> set (butlast script_v2)"
  "Click (ByRole ''button'' ''Confirm Modal Danger Button'') \<notin> set script_v2"
  by (simp_all add: script_v2_def)

lemma script_v1_split:
  "script_v1 v = butlast (script_v1 v) @ [Click (confirmButton v)]"
  by (simp add: script_v1_def)

lemma confirm_not_earlier_v1:
  "Click (confirmButton v) \<notin> set (butlast (script_v1 v))"
  by (simp add: script_v1_def confirmButton_def deleteButton_def saveButtonName_def)

lemma other_confirm_not_in_v1:
  "major_lt_10 v \<Longrightarrow> Click (ByTestId ''data-testid Confirm Modal Danger Button'') \<notin> set (script_v1 v)"
  "\<not> major_lt_10 v \<Longrightarrow> Click (ByRole ''button'' ''Confirm Modal Danger Button'') \<notin> set (script_v1 v)"
  by (simp_all add: script_v1_def confirmButton_def deleteButton_def saveButtonName_def)

lemma settles_run_steps:
  "settles (run_steps h i ss st) = Completed \<longleftrightarrow> passing_prefix h i ss = ss"
  by (simp add: settles_def result_run_steps)

lemma cleanup_v2_steps:
  "cleanup_done (performed (run_steps h 0 script_v2 st)) \<longleftrightarrow>
   settles (run_steps h 0 script_v2 st) = Completed"
proof -
  let ?c = "Click (ByTestId ''data-testid Confirm Modal Danger Button'')"
  let ?p = "passing_prefix h 0 script_v2"
  have pre: "prefix ?p script_v2" by (rule passing_prefix_prefix)
  have no_role: "Click (ByRole ''button'' ''Confirm Modal Danger Button'') \<notin> set ?p"
    using set_mono_prefix [OF pre] confirm_not_earlier_v2(2) by blast
  have "?c \<in> set (passing_prefix h 0 (butlast script_v2 @ [?c])) \<longleftrightarrow>
        passing_prefix h 0 (butlast script_v2 @ [?c]) = butlast script_v2 @ [?c]"
    by (rule last_step_performed [OF confirm_not_earlier_v2(1)])
  then have "?c \<in> set ?p \<longleftrightarrow> ?p = script_v2"
    using script_v2_split by simp
  with no_role show ?thesis
    by (simp add: cleanup_done_def datasource_deleted_def performed_run_steps settles_run_steps)
qed

lemma cleanup_v1_steps:
  "cleanup_done (performed (run_steps h 0 (script_v1 v) st)) \<longleftrightarrow>
   settles (run_steps h 0 (script_v1 v) st) = Completed"
proof -
  let ?c = "Click (confirmButton v)"
  let ?p = "passing_prefix h 0 (script_v1 v)"
  have pre: "prefix ?p (script_v1 v)" by (rule passing_prefix_prefix)
  have "?c \<in> set (passing_prefix h 0 (butlast (script_v1 v) @ [?c])) \<longleftrightarrow>
        passing_prefix h 0 (butlast (script_v1 v) @ [?c]) = butlast (script_v1 v) @ [?c]"
    by (rule last_step_performed [OF confirm_not_earlier_v1])
  then have main: "?c \<in> set ?p \<longleftrightarrow> ?p = script_v1 v"
    using script_v1_split [of v] by simp
  show ?thesis
  proof (cases "major_lt_10 v")
    case True
    then have "Click (ByTestId ''data-testid Confirm Modal Danger Button'') \<notin> set ?p"
      using set_mono_prefix [OF pre] other_confirm_not_in_v1(1) by blast
    with main True show ?thesis
      by (simp add: cleanup_done_def datasource_deleted_def performed_run_steps
            settles_run_steps confirmButton_def)
  next
    case False
    then have "Click (ByRole ''button'' ''Confirm Modal Danger Button'') \<notin> set ?p"
      using set_mono_prefix [OF pre] other_confirm_not_in_v1(2) by blast
    with main False show ?thesis
      by (simp add: cleanup_done_def datasource_deleted_def performed_run_steps
            settles_run_steps confirmButton_def)
  qed
qed

lemma read_version_no_cleanup: "\<not> cleanup_done (performed (read_version h))"
proof -
  have "performed (read_version h) = passing_prefix h 0 [OnResponse, GetVersion]"
    by (simp only: read_version_def performed_run_steps)
  then show ?thesis by (simp add: cleanup_done_def datasource_deleted_def)
qed

lemma read_version_failed:
  "getGrafanaVersion h = Inl e \<Longrightarrow> settles (read_version h) = Failed"
proof -
  assume "getGrafanaVersion h = Inl e"
  then have "passing_prefix h 0 [OnResponse, GetVersion] \<noteq> [OnResponse, GetVersion]"
    by simp
  then have "settles (read_version h) \<noteq> Completed"
    by (simp only: read_version_def settles_run_steps not_False_eq_True)
  then show ?thesis by (cases "settles (read_version h)") simp_all
qed

lemma settles_type_error: "settles (out\<lparr>result := Some TypeError\<rparr>) = Failed"
  by (simp add: settles_def)

lemma cleanup_v2:
  "cleanup_done (performed (run_scenario_v2 h)) \<longleftrightarrow> settles (run_scenario_v2 h) = Completed"
  by (simp add: run_scenario_v2_def cleanup_v2_steps)

lemma cleanup_v1:
  "cleanup_done (performed (run_scenario_v1 h)) \<longleftrightarrow> settles (run_scenario_v1 h) = Completed"
  by (simp add: run_scenario_v1_def cleanup_v1_steps read_version_no_cleanup
        read_version_failed settles_type_error
      split: sum.splits jsval.splits json.splits)

lemma settles_run_steps_traffic:
  "settles (run_steps (h\<lparr>traffic := t\<rparr>) i ss st) = settles (run_steps h i ss st')"
proof -
  have "(settles (run_steps (h\<lparr>traffic := t\<rparr>) i ss st) = Completed) =
        (settles (run_steps h i ss st') = Completed)"
    by (simp only: settles_run_steps passing_prefix_traffic)
  then show ?thesis by (cases "settles (run_steps h i ss st')"; cases "settles (run_steps (h\<lparr>traffic := t\<rparr>) i ss st)") simp_all
qed

lemma settles_traffic_v2:
  "settles (run_scenario_v2 (h\<lparr>traffic := t\<rparr>)) = settles (run_scenario_v2 h)"
  by (simp add: run_scenario_v2_def settles_run_steps_traffic [where st = init_run and st' = init_run])

lemma settles_read_version_traffic:
  "settles (read_version (h\<lparr>traffic := t\<rparr>)) = settles (read_version h)"
  by (simp only: read_version_def
        settles_run_steps_traffic [where st = init_run and st' = init_run])

lemma settles_traffic_v1:
  "settles (run_scenario_v1 (h\<lparr>traffic := t\<rparr>)) = settles (run_scenario_v1 h)"
  by (simp add: run_scenario_v1_def getGrafanaVersion_traffic settles_read_version_traffic
        settles_type_error
        settles_run_steps_traffic [where st = init_run and st' = init_run]
      split: sum.splits jsval.splits json.splits)

lemma passing_v2_refusal:
  "Fill (ByCss ''#url'') ''http://warp10:8080'' \<in> set (passing_prefix h 0 script_v2) \<Longrightarrow> refusal_shown h"
  by (simp add: script_v2_def refusal_shown_def split: if_splits option.splits)

lemma complete_v2_refusal:
  assumes "passing_prefix h 0 script_v2 = script_v2" shows "refusal_shown h"
proof -
  have "Fill (ByCss ''#url'') ''http://warp10:8080'' \<in> set script_v2"
    by (simp add: script_v2_def)
  with assms have "Fill (ByCss ''#url'') ''http://warp10:8080'' \<in> set (passing_prefix h 0 script_v2)"
    by simp
  then show ?thesis by (rule passing_v2_refusal)
qed

lemma performed_v2: "performed (run_scenario_v2 h) = passing_prefix h 0 script_v2"
  by (simp add: run_scenario_v2_def performed_run_steps)

lemma settles_v2:
  "settles (run_scenario_v2 h) = Completed \<longleftrightarrow> passing_prefix h 0 script_v2 = script_v2"
  by (simp add: run_scenario_v2_def settles_run_steps)

lemma cooperative_host_completes: "settles (run_scenario_v2 cooperative_host) = Completed"
  by (simp add: settles_v2 getGrafanaVersion_def cooperative_host_def script_v2_def
        clickAddPanelButton_def add_panel_selectors_def only_add_visualization_def)

text \<open>
  C1, as the code has it. In both scenarios the confirmation click that deletes the
  datasource is performed exactly when the run completes, that is when no statement
  throws. What the network returned does not enter: the final validation only logs, so
  a missing or non-200 query response does not keep the deletion from running. A run
  in which a statement throws ends without the deletion.
\<close>

theorem cleanup_iff_run_completes:
  "(cleanup_done (performed (run_scenario_v1 h)) \<longleftrightarrow> settles (run_scenario_v1 h) = Completed) \<and>
   (cleanup_done (performed (run_scenario_v2 h)) \<longleftrightarrow> settles (run_scenario_v2 h) = Completed) \<and>
   settles (run_scenario_v1 (h\<lparr>traffic := t\<rparr>)) = settles (run_scenario_v1 h) \<and>
   settles (run_scenario_v2 (h\<lparr>traffic := t\<rparr>)) = settles (run_scenario_v2 h)"
  by (simp add: cleanup_v1 cleanup_v2 settles_traffic_v1 settles_traffic_v2)

theorem cleanup_iff_run_completes_witness:
  "settles (run_scenario_v2 cooperative_host) = Completed \<and>
   cleanup_done (performed (run_scenario_v2 cooperative_host))"
proof -
  have s: "settles (run_scenario_v2 cooperative_host) = Completed"
    by (rule cooperative_host_completes)
  with cleanup_iff_run_completes [of cooperative_host] show ?thesis by blast
qed

text \<open>
  C1 as stated fails: on a host whose alert does not show the refused connection, the
  second scenario saves the datasource \<^verbatim>\<open>test_warp10\<close>, its assertion on the alert
  text throws, and the run ends as failed without the deletion.
\<close>

theorem leaked_datasource_counterexample:
  "datasource_saved ''Save & test'' (performed (run_scenario_v2 other_alert_host)) \<and>
   \<not> cleanup_done (performed (run_scenario_v2 other_alert_host)) \<and>
   result (run_scenario_v2 other_alert_host) = Some AssertionFailed \<and>
   settles (run_scenario_v2 other_alert_host) = Failed"
  by (simp add: run_scenario_v2_def getGrafanaVersion_def other_alert_host_def cooperative_host_def
        script_v2_def settles_def datasource_saved_def cleanup_done_def datasource_deleted_def)


section \<open>Properties of the health report of a refused connection\<close>

lemma str_includes_append: "str_includes (xs @ sub) sub"
  by (simp add: str_includes_sublist)

lemma refused_report:
  "\<not> accepts backend \<Longrightarrow>
   refusal_in_message (health_validation accepts backend) \<and>
   \<not> ok_shaped (health_validation accepts backend)"
proof -
  assume r: "\<not> accepts backend"
  have "str_includes ((''Health check failed: dial '' @ backend @ '': '') @ refusal_indicator)
          refusal_indicator"
    by (rule str_includes_append)
  with r show ?thesis
    by (simp add: health_validation_def refusal_in_message_def message_of_def ok_shaped_def
        opt_field_def)
qed

lemma accepted_report:
  "accepts backend \<Longrightarrow>
   ok_shaped (health_validation accepts backend) \<and>
   \<not> refusal_in_message (health_validation accepts backend)"
  by (simp add: health_validation_def refusal_in_message_def message_of_def ok_shaped_def
      opt_field_def refusal_indicator_def)

lemma health_exchange_captured:
  "healthResponse (capture_all [health_exchange rep]) = Some rep"
  by (simp add: capture_all_def on_response_def capture_health_def capture_query_def
      health_exchange_def init_capture_def health_filter_def query_filter_def Let_def)

lemma answers_with_shown:
  "answers_with h rep \<Longrightarrow> refusal_shown h \<longleftrightarrow> refusal_in_message rep"
  by (simp add: answers_with_def refusal_shown_def refusal_in_message_def refusal_indicator_def
      split: option.splits)

lemma negative_path_reached:
  assumes "\<forall>i<10. step_passes h i (script_v2 ! i)" and "refusal_shown h"
  shows "take 11 (performed (run_scenario_v2 h)) = take 11 script_v2"
proof -
  from assms(1) have
    "step_passes h 0 (script_v2 ! 0)" "step_passes h 1 (script_v2 ! 1)"
    "step_passes h 2 (script_v2 ! 2)" "step_passes h 3 (script_v2 ! 3)"
    "step_passes h 4 (script_v2 ! 4)" "step_passes h 5 (script_v2 ! 5)"
    "step_passes h 6 (script_v2 ! 6)" "step_passes h 7 (script_v2 ! 7)"
    "step_passes h 8 (script_v2 ! 8)" "step_passes h 9 (script_v2 ! 9)"
    by simp_all
  with assms(2) show ?thesis
    by (simp add: performed_v2 script_v2_def refusal_shown_def eval_nat_numeral split: option.splits)
qed

text \<open>
  C8. The health endpoint as the specification gives it: for a backend that refuses the
  connection, here \<^verbatim>\<open>http://localhost:9999\<close>, the report carries the connection-refusal
  indicator in its message and is not a \<^verbatim>\<open>{status: "ok"}\<close>-shaped success, while a backend
  that accepts gets a success without the indicator. The second scenario types that
  address as its statement 6 and clicks "Save & test" as statement 7; on a host that
  answers that click with a report, the listener captures the report and the alert shows
  the indicator exactly when the report carries it. The scenario holds the host to it: a
  run that completes has seen the indicator in the alert, a run on a host that does not
  show it fails, and on a host that answers with the report of the refused connection
  the run gets through the assertion on the alert when the statements before it
  complete.
\<close>

theorem refused_backend_reports_refusal:
  "(\<not> accepts ''http://localhost:9999'' \<longrightarrow>
      refusal_in_message (health_validation accepts ''http://localhost:9999'') \<and>
      \<not> ok_shaped (health_validation accepts ''http://localhost:9999'')) \<and>
   (accepts backend \<longrightarrow>
      ok_shaped (health_validation accepts backend) \<and>
      \<not> refusal_in_message (health_validation accepts backend)) \<and>
   script_v2 ! 6 = Fill (ByCss ''#url'') ''http://localhost:9999'' \<and>
   script_v2 ! 7 = Click (ByRole ''button'' ''Save & test'') \<and>
   script_v2 ! 10 = ExpectTextContains refusal_indicator \<and>
   (answers_with h rep \<longrightarrow>
      healthResponse (capture_all (traffic h 7)) = Some rep \<and>
      (refusal_shown h \<longleftrightarrow> refusal_in_message rep)) \<and>
   (settles (run_scenario_v2 h) = Completed \<longrightarrow> refusal_shown h) \<and>
   (\<not> refusal_shown h \<longrightarrow> settles (run_scenario_v2 h) = Failed) \<and>
   (\<not> accepts ''http://localhost:9999'' \<and>
    answers_with h (health_validation accepts ''http://localhost:9999'') \<and>
    (\<forall>i<10. step_passes h i (script_v2 ! i)) \<longrightarrow>
      take 11 (performed (run_scenario_v2 h)) = take 11 script_v2)"
proof -
  have a: "script_v2 ! 6 = Fill (ByCss ''#url'') ''http://localhost:9999'' \<and>
      script_v2 ! 7 = Click (ByRole ''button'' ''Save & test'') \<and>
      script_v2 ! 10 = ExpectTextContains refusal_indicator"
    by (simp add: script_v2_def refusal_indicator_def)
  have b: "answers_with h rep \<longrightarrow>
      healthResponse (capture_all (traffic h 7)) = Some rep \<and>
      (refusal_shown h \<longleftrightarrow> refusal_in_message rep)"
    using answers_with_shown [of h rep] health_exchange_captured [of rep]
    by (auto simp add: answers_with_def)
  have c: "settles (run_scenario_v2 h) = Completed \<longrightarrow> refusal_shown h"
    using complete_v2_refusal [of h] by (simp add: settles_v2)
  have d: "\<not> refusal_shown h \<longrightarrow> settles (run_scenario_v2 h) = Failed"
    using c by (cases "settles (run_scenario_v2 h)") simp_all
  have e: "\<not> accepts ''http://localhost:9999'' \<and>
      answers_with h (health_validation accepts ''http://localhost:9999'') \<and>
      (\<forall>i<10. step_passes h i (script_v2 ! i)) \<longrightarrow>
        take 11 (performed (run_scenario_v2 h)) = take 11 script_v2"
    using negative_path_reached [of h]
      answers_with_shown [of h "health_validation accepts ''http://localhost:9999''"]
      refused_report [of accepts "''http://localhost:9999''"]
    by blast
  from a b c d e refused_report [of accepts "''http://localhost:9999''"]
    accepted_report [of accepts backend]
  show ?thesis by blast
qed

theorem refused_backend_reports_refusal_witness:
  "\<not> only_warp10 ''http://localhost:9999'' \<and> only_warp10 ''http://warp10:8080'' \<and>
   answers_with refusing_host (health_validation only_warp10 ''http://localhost:9999'') \<and>
   refusal_shown refusing_host \<and>
   settles (run_scenario_v2 refusing_host) = Completed \<and>
   \<not> refusal_shown other_alert_host \<and>
   settles (run_scenario_v2 other_alert_host) = Failed \<and>
   healthResponse (capture_all (traffic refusing_host 7)) =
     Some (health_validation only_warp10 ''http://localhost:9999'') \<and>
   take 11 (performed (run_scenario_v2 refusing_host)) = take 11 script_v2 \<and>
   ok_shaped (health_validation only_warp10 ''http://warp10:8080'')"
proof -
  have n: "\<not> only_warp10 ''http://localhost:9999''" "only_warp10 ''http://warp10:8080''"
    by (simp_all add: only_warp10_def)
  have a: "answers_with refusing_host (health_validation only_warp10 ''http://localhost:9999'')"
    by (simp add: answers_with_def refusing_host_def cooperative_host_def)
  have p: "\<forall>i<10. step_passes refusing_host i (script_v2 ! i)"
  proof (intro allI impI)
    fix i :: nat assume "i < 10"
    then have "i \<in> {0, 1, 2, 3, 4, 5, 6, 7, 8, 9}" by auto
    then show "step_passes refusing_host i (script_v2 ! i)"
      by (auto simp add: script_v2_def refusing_host_def cooperative_host_def
          getGrafanaVersion_def)
  qed
  have o: "\<not> refusal_shown other_alert_host"
    by (simp add: refusal_shown_def other_alert_host_def cooperative_host_def)
  have s: "refusal_shown refusing_host"
    using refused_backend_reports_refusal
      [of only_warp10 "''http://warp10:8080''" refusing_host
          "health_validation only_warp10 ''http://localhost:9999''"] n a
    by blast
  have "passing_prefix refusing_host 0 script_v2 = script_v2"
    using s
    by (simp add: refusal_shown_def split: option.splits)
       (simp add: getGrafanaVersion_def refusing_host_def cooperative_host_def script_v2_def
          clickAddPanelButton_def add_panel_selectors_def only_add_visualization_def)
  then have c: "settles (run_scenario_v2 refusing_host) = Completed"
    by (simp add: settles_v2)
  from n a p o s c refused_backend_reports_refusal
      [of only_warp10 "''http://warp10:8080''" refusing_host
          "health_validation only_warp10 ''http://localhost:9999''"]
    refused_backend_reports_refusal
      [of only_warp10 "''http://warp10:8080''" other_alert_host JNull]
  show ?thesis by blast
qed
section \<open>Properties of the version-dependent choices\<close>

lemma click_first_find:
  "click_first p sels =
     (case find (present p) sels of
        None \<Rightarrow> Inl NotFoundError
      | Some sel \<Rightarrow> if click_ok p sel then Inr sel else Inl TimeoutError)"
  by (induction sels) simp_all

lemma click_first_not_found:
  "click_first p sels = Inl NotFoundError \<longleftrightarrow> (\<forall>sel \<in> set sels. \<not> present p sel)"
  by (induction sels) auto

lemma click_first_found:
  "click_first p sels = Inr sel \<Longrightarrow> sel \<in> set sels \<and> present p sel \<and> click_ok p sel"
  by (induction sels) (auto split: if_splits)

lemma major_lt_10_iff: "major_lt_10 v \<longleftrightarrow> (\<exists>m. major_of v = Some m \<and> m < 10)"
  by (simp add: major_lt_10_def split: option.splits)

lemma major_of_examples:
  "major_of (code_units ''9.0.0'') = Some 9" "major_of (code_units ''10.0.0'') = Some 10"
  by (simp_all add: code_units_def major_of_def parseInt10_def split_dot_first_def
        is_js_space_def is_digit_def digits_value_def digit_value_def)

lemma script_v1_by_major:
  "script_v1 v = (if major_lt_10 v then script_v1 (code_units ''9.0.0'')
                  else script_v1 (code_units ''10.0.0''))"
proof -
  have "major_lt_10 (code_units ''9.0.0'')" "\<not> major_lt_10 (code_units ''10.0.0'')"
    by (simp_all add: major_lt_10_def major_of_examples)
  then show ?thesis
    by (simp add: script_v1_def basePath_def saveButtonName_def myDsPath_def deleteButton_def
          confirmButton_def)
qed

text \<open>
  C7. For every version string each version-dependent choice of the first scenario
  resolves to one of its two candidates, so the scenario is one of two scripts: the
  candidates of the versions below 10 exactly when the major component parses to a
  number below 10, the other candidates in every other case, in particular when the
  major component does not parse (\<^verbatim>\<open>NaN < 10\<close> is false). No version string makes a
  choice fail. \<^verbatim>\<open>clickAddPanelButton\<close> does not look at the version: it clicks the
  first of its selectors that is on the page, and reports "not found" only when none of
  them is.
\<close>

theorem every_version_resolves:
  "(major_lt_10 v \<longleftrightarrow> (\<exists>m. major_of v = Some m \<and> m < 10)) \<and>
   (major_lt_10 v \<longrightarrow>
      basePath v = ''/connections/your-connections/datasources/new'' \<and>
      saveButtonName v = ''Data source settings page Save and Test button'' \<and>
      myDsPath v = ''/connections/your-connections/datasources'' \<and>
      deleteButton v = ByRole ''button'' ''Data source settings page Delete button'' \<and>
      confirmButton v = ByRole ''button'' ''Confirm Modal Danger Button'') \<and>
   (\<not> major_lt_10 v \<longrightarrow>
      basePath v = ''/connections/datasources/new'' \<and>
      saveButtonName v = ''Save & test'' \<and>
      myDsPath v = ''/connections/datasources'' \<and>
      deleteButton v = ByTestId ''Data source settings page Delete button'' \<and>
      confirmButton v = ByTestId ''data-testid Confirm Modal Danger Button'') \<and>
   (major_of v = None \<longrightarrow> \<not> major_lt_10 v) \<and>
   script_v1 v = (if major_lt_10 v then script_v1 (code_units ''9.0.0'')
                  else script_v1 (code_units ''10.0.0'')) \<and>
   clickAddPanelButton p =
     (case find (present p) add_panel_selectors of
        None \<Rightarrow> Inl NotFoundError
      | Some sel \<Rightarrow> if click_ok p sel then Inr sel else Inl TimeoutError) \<and>
   (clickAddPanelButton p = Inl NotFoundError \<longleftrightarrow>
      (\<forall>sel \<in> set add_panel_selectors. \<not> present p sel)) \<and>
   (\<forall>sel. clickAddPanelButton p = Inr sel \<longrightarrow>
      sel \<in> set add_panel_selectors \<and> present p sel \<and> click_ok p sel)"
proof -
  have a: "major_lt_10 v \<longleftrightarrow> (\<exists>m. major_of v = Some m \<and> m < 10)"
    by (rule major_lt_10_iff)
  have b: "major_lt_10 v \<longrightarrow>
      basePath v = ''/connections/your-connections/datasources/new'' \<and>
      saveButtonName v = ''Data source settings page Save and Test button'' \<and>
      myDsPath v = ''/connections/your-connections/datasources'' \<and>
      deleteButton v = ByRole ''button'' ''Data source settings page Delete button'' \<and>
      confirmButton v = ByRole ''button'' ''Confirm Modal Danger Button''"
    by (simp add: basePath_def saveButtonName_def myDsPath_def deleteButton_def
          confirmButton_def)
  have c: "\<not> major_lt_10 v \<longrightarrow>
      basePath v = ''/connections/datasources/new'' \<and>
      saveButtonName v = ''Save & test'' \<and>
      myDsPath v = ''/connections/datasources'' \<and>
      deleteButton v = ByTestId ''Data source settings page Delete button'' \<and>
      confirmButton v = ByTestId ''data-testid Confirm Modal Danger Button''"
    by (simp add: basePath_def saveButtonName_def myDsPath_def deleteButton_def
          confirmButton_def)
  have d: "major_of v = None \<longrightarrow> \<not> major_lt_10 v"
    by (simp add: major_lt_10_def)
  have e: "script_v1 v = (if major_lt_10 v then script_v1 (code_units ''9.0.0'')
                  else script_v1 (code_units ''10.0.0''))"
    by (rule script_v1_by_major)
  have f: "clickAddPanelButton p =
     (case find (present p) add_panel_selectors of
        None \<Rightarrow> Inl NotFoundError
      | Some sel \<Rightarrow> if click_ok p sel then Inr sel else Inl TimeoutError)"
    unfolding clickAddPanelButton_def by (rule click_first_find)
  have g: "clickAddPanelButton p = Inl NotFoundError \<longleftrightarrow>
      (\<forall>sel \<in> set add_panel_selectors. \<not> present p sel)"
    unfolding clickAddPanelButton_def by (rule click_first_not_found)
  have i: "\<forall>sel. clickAddPanelButton p = Inr sel \<longrightarrow>
      sel \<in> set add_panel_selectors \<and> present p sel \<and> click_ok p sel"
    unfolding clickAddPanelButton_def using click_first_found by blast
  from a b c d e f g i show ?thesis by blast
qed

theorem every_version_resolves_witness:
  \<open>major_of unknown_version = None \<and>
   deleteButton unknown_version = ByTestId ''Data source settings page Delete button'' \<and>
   confirmButton unknown_version = ByTestId ''data-testid Confirm Modal Danger Button'' \<and>
   major_of padded_version_9 = Some 9 \<and>
   deleteButton padded_version_9 = ByRole ''button'' ''Data source settings page Delete button'' \<and>
   confirmButton padded_version_9 = ByRole ''button'' ''Confirm Modal Danger Button'' \<and>
   clickAddPanelButton only_add_visualization = Inr ''button:has-text("Add visualization")'' \<and>
   ''button:has-text("Add visualization")'' \<in> set add_panel_selectors\<close>
proof -
  have m: "major_of unknown_version = None"
    by (simp add: unknown_version_def code_units_def major_of_def parseInt10_def
          split_dot_first_def is_js_space_def is_digit_def)
  have n: "major_of padded_version_9 = Some 9"
    by (simp add: padded_version_9_def code_units_def major_of_def parseInt10_def
          split_dot_first_def is_js_space_def is_digit_def digits_value_def digit_value_def)
  have c: \<open>clickAddPanelButton only_add_visualization = Inr ''button:has-text("Add visualization")''\<close>
    by (simp add: clickAddPanelButton_def add_panel_selectors_def only_add_visualization_def)
  from m n have l: "\<not> major_lt_10 unknown_version" "major_lt_10 padded_version_9"
    by (simp_all add: major_lt_10_def)
  from m n c l every_version_resolves [of unknown_version only_add_visualization]
    every_version_resolves [of padded_version_9 only_add_visualization]
  show ?thesis by blast
qed

section \<open>Properties of the macro test\<close>

lemma find_Some_set: "find P xs = Some x \<Longrightarrow> x \<in> set xs \<and> P x"
  by (induction xs) (auto split: if_splits)

text \<open>
  C5, as the code has it. The positive macro test passes exactly when the run button is
  clicked and the first request that is a POST to the query endpoint with the marker
  \<^verbatim>\<open>'addmacro' STORE\<close> in its body has a parsed body whose first query's
  \<^verbatim>\<open>expr\<close> contains that marker. Both checks read the request; no response enters
  the test. The script typed into the editor is \<open>macroCode\<close> in every run; of it, only
  the marker is looked for in the request, not the body of the macro or its call.
\<close>

theorem macro_marker_checked_in_request:
  "positive_macro_test parse clicked reqs = Inr () \<longleftrightarrow>
     clicked \<and>
     (\<exists>req \<in> set reqs. find macro_request_filter reqs = Some req \<and> marker_in_request parse req)"
proof
  assume a: "positive_macro_test parse clicked reqs = Inr ()"
  then have cl: clicked
    by (simp add: positive_macro_test_def split: if_splits)
  from a obtain req where w: "waitForRequest macro_request_filter reqs = Inr req"
    and c: "check_macro_payload parse req = Inr ()"
    by (auto simp add: positive_macro_test_def split: if_splits sum.splits)
  from w have f: "find macro_request_filter reqs = Some req"
    by (simp add: waitForRequest_def split: option.splits)
  then have m: "req \<in> set reqs" and p: "macro_request_filter req"
    using find_Some_set by fastforce+
  from p obtain d where d: "postData req = Some d" "d \<noteq> []" "str_includes d macro_marker"
    by (auto simp add: macro_request_filter_def split: option.splits)
  then have t: "request_text req = d" by (simp add: request_text_def)
  from c t obtain payload where pl: "parse d = Some payload"
    and e: "toContain (opt_field F_expr (opt_index0 (opt_field F_queries (Val payload)))) macro_marker"
    by (auto simp add: check_macro_payload_def first_query_expr_def opt_field_def
        split: option.splits sum.splits if_splits)
  from p d pl e have "marker_in_request parse req"
    by (simp add: marker_in_request_def macro_request_filter_def)
  with cl m f show "clicked \<and>
     (\<exists>req \<in> set reqs. find macro_request_filter reqs = Some req \<and> marker_in_request parse req)"
    by blast
next
  assume "clicked \<and>
     (\<exists>req \<in> set reqs. find macro_request_filter reqs = Some req \<and> marker_in_request parse req)"
  then obtain req where cl: clicked and f: "find macro_request_filter reqs = Some req"
    and mr: "marker_in_request parse req" by blast
  from f have p: "macro_request_filter req" using find_Some_set by fastforce
  from p obtain d where d: "postData req = Some d" "d \<noteq> []"
    by (auto simp add: macro_request_filter_def split: option.splits)
  then have t: "request_text req = d" by (simp add: request_text_def)
  from mr d obtain payload where pl: "parse d = Some payload"
    and e: "toContain (opt_field F_expr (opt_index0 (opt_field F_queries (Val payload)))) macro_marker"
    by (auto simp add: marker_in_request_def split: option.splits)
  from e have "check_macro_payload parse req = Inr ()"
    using t pl
    by (auto simp add: check_macro_payload_def first_query_expr_def opt_field_def
        split: sum.splits)
  with cl f show "positive_macro_test parse clicked reqs = Inr ()"
    by (simp add: positive_macro_test_def waitForRequest_def)
qed

theorem macro_marker_checked_in_request_witness:
  "positive_macro_test (parse_at macro_body macro_payload) True [macro_request] = Inr () \<and>
   marker_in_request (parse_at macro_body macro_payload) macro_request"
proof -
  have p: "positive_macro_test (parse_at macro_body macro_payload) True [macro_request] = Inr ()"
    by (simp add: positive_macro_test_def waitForRequest_def macro_request_filter_def
          macro_request_def macro_body_def macro_marker_def check_macro_payload_def
          request_text_def parse_at_def macro_payload_def first_query_expr_def opt_field_def
          macroCode_def)
  with macro_marker_checked_in_request
         [of "parse_at macro_body macro_payload" True "[macro_request]"]
  show ?thesis by simp
qed

text \<open>
  C5 as stated fails: a request whose script is the marker alone, with no macro body
  and no invocation, passes the test.
\<close>

theorem marker_alone_passes_counterexample:
  "positive_macro_test (parse_at marker_only_body marker_only_payload) True [marker_only_request]
     = Inr () \<and>
   \<not> str_includes marker_only_body ''<%'' \<and>
   \<not> str_includes marker_only_body ''$addmacro''"
  by (simp add: positive_macro_test_def waitForRequest_def macro_request_filter_def
        marker_only_request_def marker_only_body_def macro_marker_def check_macro_payload_def
        request_text_def parse_at_def marker_only_payload_def first_query_expr_def opt_field_def)

section \<open>Properties of the listener's attachment\<close>










lemma late_listener_misses:
  "responses (capture (final (run_steps early_traffic_host 0 late_listener_script init_run))) = []"
  by (simp add: late_listener_script_def early_traffic_host_def cooperative_host_def init_run_def
        deliver_def init_capture_def)











section \<open>Properties of the timestamp conversion\<close>

text \<open>
  C4. The conversion from microseconds to milliseconds is the floor of the quotient by
  1000: the result times 1000 is at most the source and less than 1000 below it. For
  1700000000123456 microseconds it is 1700000000123 milliseconds, not the rounded
  1700000000124.
\<close>

theorem us_to_ms_is_floor:
  "of_int (us_to_ms t) = \<lfloor>real_of_int t / 1000\<rfloor> \<and>
   1000 * us_to_ms t \<le> t \<and> t < 1000 * us_to_ms t + 1000 \<and>
   us_to_ms 1700000000123456 = 1700000000123 \<and>
   us_to_ms 1700000000123456 \<noteq> 1700000000124"
proof -
  have "\<lfloor>real_of_int t / 1000\<rfloor> = t div 1000"
    using floor_divide_of_int_eq [of t 1000] by simp
  moreover have "1000 * (t div 1000) \<le> t \<and> t < 1000 * (t div 1000) + 1000"
    by presburger
  ultimately show ?thesis by (simp add: us_to_ms_def)
qed


end
